theory Spec2Isabelle
  imports Complex_Main
begin

section \<open>Numbers, textures and display objects\<close>

text \<open>
  The program is \<^verbatim>\<open>Game.ts\<close>: a PixiJS application that shows a loading label, loads one
  texture, cross-fades to a game scene and moves one sprite along the x axis, one tween per
  command of \<^verbatim>\<open>inputData\<close>.

  JavaScript numbers are modelled by exact rationals. Every coordinate the program
  computes is an integer of small size (400 plus or minus multiples of 10 over an array
  of fewer than \<open>2^32\<close> commands), which doubles represent exactly; durations and
  opacities are the decimal literals of the source read as fractions. The floor of a
  product of a progress value can differ by one from the double computation at isolated
  progress values; the bounds proved below hold for both. A string is a list of
  characters; the commands are ASCII, where JavaScript's code units are these characters.

  The page, the canvas and the renderer's drawing are not modelled: the state is the
  scene graph, the objects in it and the console.
\<close>

type_synonym number = rat

datatype texture = Texture string

record text_style =
  fontFamily :: string
  fontSize :: nat
  fill :: nat

text \<open>
  \<^verbatim>\<open>PIXI.DisplayObject\<close>: the attributes the program reads or writes. Every further
  attribute of an object lives in the extension slot of the record, so a statement over
  \<open>'a display_object_scheme\<close> speaks about all of them.
\<close>

record display_object =
  pos_x :: number
  pos_y :: number
  alpha :: number
  anchor_x :: number
  anchor_y :: number

record text_object = display_object +
  text_str :: string
  style :: text_style

record sprite_object = display_object +
  texture :: texture

text \<open>
  The program allocates three display objects, each at one place of the source that runs
  at most once: the loading label (\<^verbatim>\<open>showLoadingScreen\<close>), the error label
  (\<^verbatim>\<open>showError\<close>) and the sprite (\<^verbatim>\<open>setupGameScene\<close>). A container holds references to
  them, so an object that was removed from its container can still be written through a
  reference the code kept.
\<close>

datatype obj_id = LoadingTextId | ErrorTextId | SpriteId

record container = display_object +
  children :: "obj_id list"

datatype scene_id = LoadingSceneId | GameSceneId

record application =
  width :: number
  height :: number
  backgroundColor :: nat
  resolution :: number
  stage :: "scene_id list"

subsection \<open>The renderer's constructors and container operations\<close>

text \<open>
  Modelled from the spec: the renderer (the external library \<^verbatim>\<open>pixi.js\<close>) is not part of
  the repository. The spec describes a container type (add and remove children,
  opacity, position), a sprite type (position, anchor, texture) and a text type (string
  content, style). A new object is at the origin with anchor 0 and is opaque;
  \<^verbatim>\<open>anchor.set\<close> with one argument sets both coordinates; \<^verbatim>\<open>addChild\<close> appends;
  \<^verbatim>\<open>removeChildren\<close> without arguments removes every child.
\<close>

definition new_Container :: container where
  "new_Container =
     \<lparr>pos_x = 0, pos_y = 0, alpha = 1, anchor_x = 0, anchor_y = 0, children = []\<rparr>"

definition new_Text :: "string \<Rightarrow> text_style \<Rightarrow> text_object" where
  "new_Text s st =
     \<lparr>pos_x = 0, pos_y = 0, alpha = 1, anchor_x = 0, anchor_y = 0, text_str = s, style = st\<rparr>"

definition new_Sprite :: "texture \<Rightarrow> sprite_object" where
  "new_Sprite t =
     \<lparr>pos_x = 0, pos_y = 0, alpha = 1, anchor_x = 0, anchor_y = 0, texture = t\<rparr>"

definition anchor_set :: "number \<Rightarrow> 'a display_object_scheme \<Rightarrow> 'a display_object_scheme" where
  "anchor_set v obj = obj\<lparr>anchor_x := v, anchor_y := v\<rparr>"

definition addChild :: "container \<Rightarrow> obj_id \<Rightarrow> container" where
  "addChild c child = c\<lparr>children := children c @ [child]\<rparr>"

definition removeChildren :: "container \<Rightarrow> container" where
  "removeChildren c = c\<lparr>children := []\<rparr>"

subsection \<open>Numbers in template strings\<close>

definition digit_char :: "nat \<Rightarrow> char" where
  "digit_char d = ''0123456789'' ! d"

fun nat_toString :: "nat \<Rightarrow> string" where
  "nat_toString n =
     (if n < 10 then [digit_char n] else nat_toString (n div 10) @ [digit_char (n mod 10)])"

declare nat_toString.simps [simp del]

definition number_toString :: "int \<Rightarrow> string" where
  "number_toString k =
     (if k < 0 then CHR ''-'' # nat_toString (nat (- k)) else nat_toString (nat k))"

text \<open>The template \<^verbatim>\<open>`Loading... ${n}%`\<close> for an integer \<open>n\<close>.\<close>

definition loading_label :: "int \<Rightarrow> string" where
  "loading_label k = ''Loading... '' @ number_toString k @ ''%''"

section \<open>The tween collaborator\<close>

text \<open>
  Modelled from the spec: the tween engine (the external library \<^verbatim>\<open>gsap\<close>) is not part of
  the repository. The spec describes it as chained "to" steps with a target object, a
  property-value map, a duration, an easing identifier, a delay and a start offset, run
  one after another, with a completion callback; a tween interpolates its properties
  from a start value to an end value over its duration. A step appended to a chain
  starts at the chain's current end, moved by the start offset, plus its own delay.
\<close>

datatype target = SpriteT | LoadingSceneT | GameSceneT | LoadingTextT

record tween_vars =
  props :: "(string \<times> number) list"
  duration :: number
  ease :: string
  delay :: number

record tween =
  target :: target
  vars :: tween_vars
  start_time :: number

datatype callback = ReportFinalPosition | DiscardLoadingChildren

record timeline =
  tweens :: "tween list"
  onComplete :: "callback option"
  then_callback :: "callback option"

definition gsap_timeline :: "callback option \<Rightarrow> timeline" where
  "gsap_timeline oc = \<lparr>tweens = [], onComplete = oc, then_callback = None\<rparr>"

text \<open>
  Modelled from the spec: the schedule of a chain. A step lasts its duration from its
  start; the chain lasts until its last step ends; a step appended with \<^verbatim>\<open>to\<close> starts
  at the chain's current end, moved by the start offset (0 when none is given, -0.3 for
  \<^verbatim>\<open>"-=0.3"\<close>), plus its own delay.
\<close>

definition tween_end :: "tween \<Rightarrow> number" where
  "tween_end tw = start_time tw + duration (vars tw)"

definition timeline_duration :: "timeline \<Rightarrow> number" where
  "timeline_duration tml = foldl max 0 (map tween_end (tweens tml))"

definition timeline_to :: "timeline \<Rightarrow> target \<Rightarrow> tween_vars \<Rightarrow> number \<Rightarrow> timeline" where
  "timeline_to tml tg vs offset =
     tml\<lparr>tweens := tweens tml @
        [\<lparr>target = tg, vars = vs, start_time = timeline_duration tml + offset + delay vs\<rparr>]\<rparr>"

definition timeline_then :: "timeline \<Rightarrow> callback \<Rightarrow> timeline" where
  "timeline_then tml cb = tml\<lparr>then_callback := Some cb\<rparr>"

text \<open>
  Modelled from the spec: a tween writes the properties its map names and no other.
  Writing one animated property of a display object:
\<close>

definition set_prop :: "'a display_object_scheme \<Rightarrow> string \<times> number \<Rightarrow> 'a display_object_scheme" where
  "set_prop obj pv =
     (if fst pv = ''x'' then obj\<lparr>pos_x := snd pv\<rparr>
      else if fst pv = ''y'' then obj\<lparr>pos_y := snd pv\<rparr>
      else if fst pv = ''alpha'' then obj\<lparr>alpha := snd pv\<rparr>
      else obj)"

text \<open>
  A frame of a running tween writes some value of the engine's choice to each of its
  properties (the easing curve decides which); its last frame writes the end values.
\<close>

definition tween_render :: "tween \<Rightarrow> number list \<Rightarrow> 'a display_object_scheme \<Rightarrow> 'a display_object_scheme" where
  "tween_render tw vals obj = foldl set_prop obj (zip (map fst (props (vars tw))) vals)"

definition tween_finish :: "tween \<Rightarrow> 'a display_object_scheme \<Rightarrow> 'a display_object_scheme" where
  "tween_finish tw obj = foldl set_prop obj (props (vars tw))"

text \<open>
  Modelled from the spec: playing a whole chain on its one target, every step runs to its
  end, one after another, in the order they were appended.
\<close>

definition timeline_play :: "timeline \<Rightarrow> 'a display_object_scheme \<Rightarrow> 'a display_object_scheme" where
  "timeline_play tml obj = foldl (\<lambda>ob tw. tween_finish tw ob) obj (tweens tml)"

text \<open>
  Modelled from the spec: the steps of a chain that are running at time \<open>t\<close> of the
  chain (a step is not running during its delay).
\<close>

definition running_at :: "timeline \<Rightarrow> number \<Rightarrow> tween list" where
  "running_at tml t = filter (\<lambda>tw. start_time tw \<le> t \<and> t < tween_end tw) (tweens tml)"

section \<open>The Game class\<close>

datatype phase =
    Constructed
  | WaitFrame
  | FadeInLoader
  | FadeInText
  | AssetsInit
  | Loading
  | Pause
  | Transition
  | Finished
  | Failed

datatype log_entry = ErrorLoadingAssets | FinalPosition number

text \<open>
  The fields of the class, the objects it allocated, and the point the asynchronous
  methods have reached: the promise they await (\<open>phase\<close>), the pending timer in
  milliseconds, the tween awaited by \<^verbatim>\<open>fadeInLoader\<close> or \<^verbatim>\<open>loadAssets\<close>, the progress of
  \<^verbatim>\<open>progressTimeline\<close> once it exists, whether the 0.3 s completion tween is running, and
  the two timelines.
\<close>

record game =
  app :: application
  speed :: number
  loadingScene :: container
  gameScene :: container
  loadingText :: "text_object option"
  errorText :: "text_object option"
  sprite :: "sprite_object option"
  phase :: phase
  timer :: "nat option"
  awaited :: "tween option"
  progressTimeline :: "number option"
  completing :: bool
  loaded :: "texture option"
  transition :: "timeline option"
  animation :: "timeline option"
  console :: "log_entry list"

definition MOVEMENT_DURATION :: number where
  "MOVEMENT_DURATION = 1 / 2"

definition DELAY_BETWEEN_MOVES :: number where
  "DELAY_BETWEEN_MOVES = 1 / 10"

definition MIN_LOADING_TIME :: number where
  "MIN_LOADING_TIME = 1"

definition SPRITE_URL :: string where
  "SPRITE_URL = ''https://pixijs.io/examples/examples/assets/bunny.png''"

text \<open>
  The constructor. \<^verbatim>\<open>window.devicePixelRatio || 1\<close> takes 1 when the ratio is falsy,
  which for a number is zero.
\<close>

definition constructor :: "number \<Rightarrow> game" where
  "constructor devicePixelRatio =
     (let a0 = \<lparr>width = 800, height = 600, backgroundColor = 0x1099bb,
                resolution = (if devicePixelRatio = 0 then 1 else devicePixelRatio),
                stage = []\<rparr>;
          ls = new_Container;
          gs = new_Container;
          a1 = a0\<lparr>stage := stage a0 @ [LoadingSceneId]\<rparr>;
          a2 = a1\<lparr>stage := stage a1 @ [GameSceneId]\<rparr>;
          gs = gs\<lparr>alpha := 0\<rparr>
      in \<lparr>app = a2, speed = 10, loadingScene = ls, gameScene = gs,
          loadingText = None, errorText = None, sprite = None,
          phase = Constructed, timer = None, awaited = None, progressTimeline = None,
          completing = False, loaded = None, transition = None, animation = None,
          console = []\<rparr>)"

definition showLoadingScreen :: "game \<Rightarrow> game" where
  "showLoadingScreen g =
     (let t0 = new_Text ''Loading... 0%'' \<lparr>fontFamily = ''Arial'', fontSize = 24, fill = 0xffffff\<rparr>;
          t1 = anchor_set (1 / 2) t0;
          t2 = t1\<lparr>pos_x := width (app g) / 2\<rparr>;
          t3 = t2\<lparr>pos_y := height (app g) / 2\<rparr>;
          t4 = t3\<lparr>alpha := 0\<rparr>
      in g\<lparr>loadingText := Some t4, loadingScene := addChild (loadingScene g) LoadingTextId\<rparr>)"

text \<open>\<^verbatim>\<open>fadeInLoader\<close> up to its first \<^verbatim>\<open>await\<close>: a timer of 100 ms.\<close>

definition fadeInLoader :: "game \<Rightarrow> game" where
  "fadeInLoader g = g\<lparr>phase := WaitFrame, timer := Some 100\<rparr>"

definition initialize :: "game \<Rightarrow> game" where
  "initialize g =
     (let g1 = g\<lparr>loadingScene := (loadingScene g)\<lparr>alpha := 0\<rparr>\<rparr>;
          g2 = g1\<lparr>gameScene := (gameScene g1)\<lparr>alpha := 0\<rparr>\<rparr>;
          g3 = showLoadingScreen g2
      in fadeInLoader g3)"

text \<open>After the timer: the tween that fades the loading scene in is started and awaited.\<close>

definition fadeInLoader_fade :: "game \<Rightarrow> game" where
  "fadeInLoader_fade g =
     g\<lparr>timer := None, phase := FadeInLoader,
       awaited := Some \<lparr>target = LoadingSceneT,
                        vars = \<lparr>props = [(''alpha'', 1)], duration = 4 / 5,
                                ease = ''power2.inOut'', delay = 0\<rparr>,
                        start_time = 0\<rparr>\<rparr>"

text \<open>
  \<^verbatim>\<open>loadAssets\<close> up to its first \<^verbatim>\<open>await\<close>. The label it keeps is
  \<^verbatim>\<open>loadingScene.children[0]\<close>, the object \<^verbatim>\<open>showLoadingScreen\<close> added: in every
  reachable state that calls the method the loading scene's children are that label
  alone (\<open>game_inv\<close> below). The method reads the clock into \<^verbatim>\<open>startTime\<close> and never
  uses it.
\<close>

definition loadAssets :: "game \<Rightarrow> game" where
  "loadAssets g =
     g\<lparr>loadingText := map_option (\<lambda>t. t\<lparr>alpha := 0\<rparr>) (loadingText g),
       phase := FadeInText,
       awaited := Some \<lparr>target = LoadingTextT,
                        vars = \<lparr>props = [(''alpha'', 1)], duration = 1 / 2,
                                ease = ''power2.inOut'', delay = 0\<rparr>,
                        start_time = 0\<rparr>\<rparr>"

text \<open>After the label's fade: \<^verbatim>\<open>PIXI.Assets.reset()\<close>, then \<^verbatim>\<open>await PIXI.Assets.init()\<close>.\<close>

definition loadAssets_init :: "game \<Rightarrow> game" where
  "loadAssets_init g = g\<lparr>awaited := None, phase := AssetsInit\<rparr>"

definition set_loading_text :: "string \<Rightarrow> game \<Rightarrow> game" where
  "set_loading_text s g = g\<lparr>loadingText := map_option (\<lambda>t. t\<lparr>text_str := s\<rparr>) (loadingText g)\<rparr>"

text \<open>
  After the initialisation: the label shows 0%, \<^verbatim>\<open>progressTimeline\<close> starts its ramp of
  \<open>MIN_LOADING_TIME\<close> seconds, and the load of the texture is awaited.
\<close>

definition loadAssets_load :: "game \<Rightarrow> game" where
  "loadAssets_load g =
     (set_loading_text ''Loading... 0%'' g)\<lparr>progressTimeline := Some 0, phase := Loading\<rparr>"

text \<open>The ramp's \<^verbatim>\<open>onUpdate\<close>, at progress \<open>p\<close> of \<^verbatim>\<open>progressTimeline\<close>.\<close>

definition progress_onUpdate :: "number \<Rightarrow> game \<Rightarrow> game" where
  "progress_onUpdate p g =
     (set_loading_text (loading_label \<lfloor>p * 90\<rfloor>) g)\<lparr>progressTimeline := Some p\<rparr>"

text \<open>
  After the load resolved: the completion tween of 0.3 s starts and is not awaited, and
  a timer of 300 ms is awaited. The tween's \<^verbatim>\<open>onUpdate\<close> reads the progress of
  \<^verbatim>\<open>progressTimeline\<close>, which keeps running.
\<close>

definition loadAssets_complete :: "texture \<Rightarrow> game \<Rightarrow> game" where
  "loadAssets_complete tex g =
     g\<lparr>loaded := Some tex, completing := True, timer := Some 300, phase := Pause\<rparr>"

definition completion_onUpdate :: "game \<Rightarrow> game" where
  "completion_onUpdate g =
     (case progressTimeline g of
        None \<Rightarrow> g
      | Some p \<Rightarrow>
          (let progress = min 1 (p + 1 / 10)
           in set_loading_text (loading_label \<lfloor>progress * 100\<rfloor>) g))"

definition completion_onComplete :: "game \<Rightarrow> game" where
  "completion_onComplete g = (set_loading_text ''Loading... 100%'' g)\<lparr>completing := False\<rparr>"

subsection \<open>The animation sequencer\<close>

text \<open>\<^verbatim>\<open>input.slice(1)[0]\<close>: the second character, or \<^verbatim>\<open>undefined\<close> when there is none.\<close>

definition sign_token :: "string \<Rightarrow> char option" where
  "sign_token input = (case drop 1 input of [] \<Rightarrow> None | c # _ \<Rightarrow> Some c)"

text \<open>The body of the \<^verbatim>\<open>forEach\<close>, on the timeline and the running \<^verbatim>\<open>currentX\<close>.\<close>

definition move_step :: "'g game_scheme \<Rightarrow> timeline \<times> number \<Rightarrow> string \<Rightarrow> timeline \<times> number" where
  "move_step g acc input =
     (let command = sign_token input;
          magnitude = (if command = Some CHR ''+'' then speed g else - speed g);
          currentX = snd acc + magnitude
      in (timeline_to (fst acc) SpriteT
            \<lparr>props = [(''x'', currentX)], duration = MOVEMENT_DURATION,
             ease = ''back.in'', delay = DELAY_BETWEEN_MOVES\<rparr> 0,
          currentX))"

text \<open>
  \<^verbatim>\<open>inputData\<close> is imported from a module that is not among the sources, so it is a
  parameter. The sprite is passed by its value at the call; the steps name it by
  \<open>SpriteT\<close>.
\<close>

definition createAnimationTimeline :: "'g game_scheme \<Rightarrow> string list \<Rightarrow> 'a display_object_scheme \<Rightarrow> timeline" where
  "createAnimationTimeline g inputData sp =
     (let tl0 = gsap_timeline None;
          currentX = pos_x sp;
          res = foldl (move_step g) (tl0, currentX) inputData
      in timeline_then (fst res) ReportFinalPosition)"

text \<open>What the \<^verbatim>\<open>then\<close> callback logs when the chain has run on the sprite: its x.\<close>

definition final_position :: "timeline \<Rightarrow> 'a display_object_scheme \<Rightarrow> number" where
  "final_position tml sp = pos_x (timeline_play tml sp)"

definition setupGameScene :: "string list \<Rightarrow> texture \<Rightarrow> game \<Rightarrow> game" where
  "setupGameScene inputData tex g =
     (let s0 = new_Sprite tex;
          s1 = anchor_set (1 / 2) s0;
          s2 = s1\<lparr>pos_x := 400\<rparr>;
          s3 = s2\<lparr>pos_y := 300\<rparr>;
          g1 = g\<lparr>sprite := Some s3, gameScene := addChild (gameScene g) SpriteId\<rparr>
      in g1\<lparr>animation := Some (createAnimationTimeline g1 inputData s3)\<rparr>)"

text \<open>
  \<^verbatim>\<open>transitionToGame\<close> up to its \<^verbatim>\<open>await\<close>: the game scene is set up and the cross-fade
  timeline is built; the second fade starts 0.3 s before the first one ends.
\<close>

definition transitionToGame :: "string list \<Rightarrow> texture \<Rightarrow> game \<Rightarrow> game" where
  "transitionToGame inputData tex g =
     (let g1 = setupGameScene inputData tex g;
          tl0 = gsap_timeline (Some DiscardLoadingChildren);
          tl1 = timeline_to tl0 LoadingSceneT
                  \<lparr>props = [(''alpha'', 0)], duration = 1 / 2, ease = ''power2.inOut'', delay = 0\<rparr> 0;
          tl2 = timeline_to tl1 GameSceneT
                  \<lparr>props = [(''alpha'', 1)], duration = 1 / 2, ease = ''power2.inOut'', delay = 0\<rparr>
                  (- (3 / 10))
      in g1\<lparr>timer := None, transition := Some tl2, phase := Transition\<rparr>)"

definition showError :: "game \<Rightarrow> game" where
  "showError g =
     (let e0 = new_Text ''Error loading game assets''
                 \<lparr>fontFamily = ''Arial'', fontSize = 24, fill = 0xff0000\<rparr>;
          e1 = anchor_set (1 / 2) e0;
          e2 = e1\<lparr>pos_x := width (app g) / 2\<rparr>;
          e3 = e2\<lparr>pos_y := height (app g) / 2\<rparr>;
          g1 = g\<lparr>errorText := Some e3\<rparr>;
          g2 = g1\<lparr>loadingScene := removeChildren (loadingScene g1)\<rparr>
      in g2\<lparr>loadingScene := addChild (loadingScene g2) ErrorTextId\<rparr>)"

text \<open>The \<^verbatim>\<open>catch\<close> of \<^verbatim>\<open>loadAssets\<close>: the error is logged and shown; the method returns.\<close>

definition loadAssets_catch :: "game \<Rightarrow> game" where
  "loadAssets_catch g = (showError (g\<lparr>console := console g @ [ErrorLoadingAssets]\<rparr>))\<lparr>phase := Failed\<rparr>"

subsection \<open>Tweens on the objects of the game\<close>

definition finish_tween :: "tween \<Rightarrow> game \<Rightarrow> game" where
  "finish_tween tw g =
     (case target tw of
        SpriteT \<Rightarrow> g\<lparr>sprite := map_option (tween_finish tw) (sprite g)\<rparr>
      | LoadingSceneT \<Rightarrow> g\<lparr>loadingScene := tween_finish tw (loadingScene g)\<rparr>
      | GameSceneT \<Rightarrow> g\<lparr>gameScene := tween_finish tw (gameScene g)\<rparr>
      | LoadingTextT \<Rightarrow> g\<lparr>loadingText := map_option (tween_finish tw) (loadingText g)\<rparr>)"

definition render_tween :: "tween \<Rightarrow> number list \<Rightarrow> game \<Rightarrow> game" where
  "render_tween tw vals g =
     (case target tw of
        SpriteT \<Rightarrow> g\<lparr>sprite := map_option (tween_render tw vals) (sprite g)\<rparr>
      | LoadingSceneT \<Rightarrow> g\<lparr>loadingScene := tween_render tw vals (loadingScene g)\<rparr>
      | GameSceneT \<Rightarrow> g\<lparr>gameScene := tween_render tw vals (gameScene g)\<rparr>
      | LoadingTextT \<Rightarrow> g\<lparr>loadingText := map_option (tween_render tw vals) (loadingText g)\<rparr>)"

text \<open>
  The cross-fade timeline completes: both fades are at their end values, and its
  \<^verbatim>\<open>onComplete\<close> discards the children of the loading scene and resolves the promise
  \<^verbatim>\<open>transitionToGame\<close> awaits, after which \<^verbatim>\<open>loadAssets\<close> returns.
\<close>

definition transition_onComplete :: "timeline \<Rightarrow> game \<Rightarrow> game" where
  "transition_onComplete tml g =
     (let g1 = foldl (\<lambda>h tw. finish_tween tw h) g (tweens tml);
          g2 = (case onComplete tml of
                  Some DiscardLoadingChildren \<Rightarrow> g1\<lparr>loadingScene := removeChildren (loadingScene g1)\<rparr>
                | _ \<Rightarrow> g1)
      in g2\<lparr>transition := None, phase := Finished\<rparr>)"

text \<open>The \<^verbatim>\<open>then\<close> callback of the animation timeline: it logs the sprite's x.\<close>

definition animation_then :: "timeline \<Rightarrow> game \<Rightarrow> game" where
  "animation_then tml g =
     (case sprite g of
        None \<Rightarrow> g
      | Some s \<Rightarrow>
          g\<lparr>console := console g @ [FinalPosition (pos_x s)],
            animation := Some (tml\<lparr>then_callback := None\<rparr>)\<rparr>)"

section \<open>The event loop\<close>

text \<open>
  The program runs on one thread: each event below is one callback of the host, the
  engine or the loader, run to its next \<^verbatim>\<open>await\<close>. An event that is not enabled in the
  current state does not happen and leaves the state as it is. The entry point calls
  \<^verbatim>\<open>initialize\<close> once, on the constructed game.

  A timer fires; the tween a method awaits renders a frame or completes; the loader's
  initialisation and the load resolve or reject; \<^verbatim>\<open>progressTimeline\<close> renders a frame at
  a progress between 0 and 1, until it has reached 1; the completion tween renders a
  frame or completes; the cross-fade renders a frame of its two fades or completes; the
  animation timeline renders a frame of its current step, completes that step, or, with
  no step left, completes and calls its \<^verbatim>\<open>then\<close> callback. The values a frame writes
  are the engine's choice and come with the event.
\<close>

datatype event =
    Initialize
  | TimerFired
  | AwaitedRender "number list"
  | AwaitedComplete
  | InitResolved
  | InitRejected
  | LoadResolved texture
  | LoadRejected
  | ProgressRender number
  | CompletionRender
  | CompletionComplete
  | TransitionRender "number list" "number list"
  | TransitionComplete
  | AnimationRender "number list"
  | AnimationStepComplete
  | AnimationComplete

fun step :: "string list \<Rightarrow> game \<Rightarrow> event \<Rightarrow> game" where
  "step inputData g Initialize =
     (if phase g = Constructed then initialize g else g)"
| "step inputData g TimerFired =
     (if phase g = WaitFrame then fadeInLoader_fade g
      else if phase g = Pause then
        (case loaded g of None \<Rightarrow> g | Some tex \<Rightarrow> transitionToGame inputData tex g)
      else g)"
| "step inputData g (AwaitedRender vals) =
     (case awaited g of None \<Rightarrow> g | Some tw \<Rightarrow> render_tween tw vals g)"
| "step inputData g AwaitedComplete =
     (case awaited g of
        None \<Rightarrow> g
      | Some tw \<Rightarrow>
          if phase g = FadeInLoader then loadAssets (finish_tween tw g)
          else if phase g = FadeInText then loadAssets_init (finish_tween tw g)
          else g)"
| "step inputData g InitResolved =
     (if phase g = AssetsInit then loadAssets_load g else g)"
| "step inputData g InitRejected =
     (if phase g = AssetsInit then loadAssets_catch g else g)"
| "step inputData g (LoadResolved tex) =
     (if phase g = Loading then loadAssets_complete tex g else g)"
| "step inputData g LoadRejected =
     (if phase g = Loading then loadAssets_catch g else g)"
| "step inputData g (ProgressRender p) =
     (case progressTimeline g of
        None \<Rightarrow> g
      | Some p0 \<Rightarrow> if p0 < 1 \<and> 0 \<le> p \<and> p \<le> 1 then progress_onUpdate p g else g)"
| "step inputData g CompletionRender =
     (if completing g then completion_onUpdate g else g)"
| "step inputData g CompletionComplete =
     (if completing g then completion_onComplete g else g)"
| "step inputData g (TransitionRender vals1 vals2) =
     (case transition g of
        Some tml \<Rightarrow>
          (case tweens tml of
             [tw1, tw2] \<Rightarrow> render_tween tw2 vals2 (render_tween tw1 vals1 g)
           | _ \<Rightarrow> g)
      | None \<Rightarrow> g)"
| "step inputData g TransitionComplete =
     (case transition g of
        Some tml \<Rightarrow> if phase g = Transition then transition_onComplete tml g else g
      | None \<Rightarrow> g)"
| "step inputData g (AnimationRender vals) =
     (case animation g of
        Some tml \<Rightarrow> (case tweens tml of tw # rest \<Rightarrow> render_tween tw vals g | [] \<Rightarrow> g)
      | None \<Rightarrow> g)"
| "step inputData g AnimationStepComplete =
     (case animation g of
        Some tml \<Rightarrow>
          (case tweens tml of
             tw # rest \<Rightarrow> (finish_tween tw g)\<lparr>animation := Some (tml\<lparr>tweens := rest\<rparr>)\<rparr>
           | [] \<Rightarrow> g)
      | None \<Rightarrow> g)"
| "step inputData g AnimationComplete =
     (case animation g of
        Some tml \<Rightarrow>
          (if tweens tml = [] \<and> then_callback tml = Some ReportFinalPosition
           then animation_then tml g else g)
      | None \<Rightarrow> g)"

definition run :: "string list \<Rightarrow> game \<Rightarrow> event list \<Rightarrow> game" where
  "run inputData g evs = foldl (step inputData) g evs"

section \<open>Vocabulary of the specification\<close>

text \<open>The signed step of one command, and the signed sum of a command sequence.\<close>

definition magnitude :: "'g game_scheme \<Rightarrow> string \<Rightarrow> number" where
  "magnitude g input = (if sign_token input = Some CHR ''+'' then speed g else - speed g)"

definition signed_sum :: "'g game_scheme \<Rightarrow> string list \<Rightarrow> number" where
  "signed_sum g cmds = sum_list (map (magnitude g) cmds)"

text \<open>
  The number of commands whose sign token is \<open>+\<close>, whose sign token is \<open>-\<close>, and whose
  sign token is anything but \<open>+\<close> (a command of fewer than two characters among them).
\<close>

definition plus_count :: "string list \<Rightarrow> nat" where
  "plus_count cmds = length (filter (\<lambda>c. sign_token c = Some CHR ''+'') cmds)"

definition minus_count :: "string list \<Rightarrow> nat" where
  "minus_count cmds = length (filter (\<lambda>c. sign_token c = Some CHR ''-'') cmds)"

definition other_count :: "string list \<Rightarrow> nat" where
  "other_count cmds = length (filter (\<lambda>c. sign_token c \<noteq> Some CHR ''+'') cmds)"

text \<open>A chain is sequential when every step ends before any later step starts.\<close>

definition sequential :: "tween list \<Rightarrow> bool" where
  "sequential tws = sorted_wrt (\<lambda>a b. tween_end a \<le> start_time b) tws"

text \<open>
  Before the game scene is set up there is no sprite, no animation chain and no
  cross-fade, and the game scene is empty and transparent.
\<close>

definition before_game :: "game \<Rightarrow> bool" where
  "before_game g =
     (sprite g = None \<and> animation g = None \<and> transition g = None
      \<and> children (gameScene g) = [] \<and> alpha (gameScene g) = 0)"

text \<open>The loading label exists and is the one child of the loading scene.\<close>

definition label_shown :: "game \<Rightarrow> bool" where
  "label_shown g =
     (loadingText g \<noteq> None \<and> children (loadingScene g) = [LoadingTextId] \<and> errorText g = None)"

text \<open>The label \<^verbatim>\<open>showError\<close> builds on the 800 by 600 canvas.\<close>

definition the_error_label :: text_object where
  "the_error_label =
     \<lparr>pos_x = 400, pos_y = 300, alpha = 1, anchor_x = 1 / 2, anchor_y = 1 / 2,
      text_str = ''Error loading game assets'',
      style = \<lparr>fontFamily = ''Arial'', fontSize = 24, fill = 0xff0000\<rparr>\<rparr>"

text \<open>The cross-fade timeline of \<^verbatim>\<open>transitionToGame\<close>, by its targets and end values.\<close>

definition crossfade :: "timeline \<Rightarrow> bool" where
  "crossfade tml =
     (map target (tweens tml) = [LoadingSceneT, GameSceneT]
      \<and> map (\<lambda>tw. props (vars tw)) (tweens tml) = [[(''alpha'', 0)], [(''alpha'', 1)]]
      \<and> onComplete tml = Some DiscardLoadingChildren)"

text \<open>
  After \<^verbatim>\<open>setupGameScene\<close>: the sprite is the one child of the game scene, and it is as
  it was constructed from the loaded texture, but for its x.
\<close>

definition game_started :: "game \<Rightarrow> bool" where
  "game_started g =
     ((\<exists>v tex. loaded g = Some tex
          \<and> sprite g = Some \<lparr>pos_x = v, pos_y = 300, alpha = 1, anchor_x = 1 / 2,
                              anchor_y = 1 / 2, texture = tex\<rparr>)
      \<and> animation g \<noteq> None \<and> children (gameScene g) = [SpriteId]
      \<and> loadingText g \<noteq> None \<and> progressTimeline g \<noteq> None \<and> awaited g = None
      \<and> errorText g = None)"

text \<open>
  What holds in every state the event loop reaches from the constructor, by the point
  the asynchronous methods have reached.
\<close>

definition game_inv :: "game \<Rightarrow> bool" where
  "game_inv g =
     (speed g = 10 \<and> width (app g) = 800 \<and> height (app g) = 600
      \<and> (case progressTimeline g of None \<Rightarrow> True | Some p \<Rightarrow> 0 \<le> p \<and> p \<le> 1)
      \<and> (case animation g of None \<Rightarrow> True
          | Some tml \<Rightarrow>
              list_all (\<lambda>tw. target tw = SpriteT \<and> map fst (props (vars tw)) = [''x''])
                (tweens tml))
      \<and> (case phase g of
            Constructed \<Rightarrow>
              before_game g \<and> loadingText g = None \<and> errorText g = None
              \<and> children (loadingScene g) = []
              \<and> awaited g = None \<and> progressTimeline g = None \<and> \<not> completing g
          | WaitFrame \<Rightarrow>
              before_game g \<and> label_shown g \<and> timer g = Some 100
              \<and> awaited g = None \<and> progressTimeline g = None \<and> \<not> completing g
          | FadeInLoader \<Rightarrow>
              before_game g \<and> label_shown g
              \<and> map_option target (awaited g) = Some LoadingSceneT
              \<and> progressTimeline g = None \<and> \<not> completing g
          | FadeInText \<Rightarrow>
              before_game g \<and> label_shown g
              \<and> map_option target (awaited g) = Some LoadingTextT
              \<and> progressTimeline g = None \<and> \<not> completing g
          | AssetsInit \<Rightarrow>
              before_game g \<and> label_shown g
              \<and> awaited g = None \<and> progressTimeline g = None \<and> \<not> completing g
          | Loading \<Rightarrow>
              before_game g \<and> label_shown g
              \<and> awaited g = None \<and> progressTimeline g \<noteq> None \<and> \<not> completing g
              \<and> (\<exists>k. 0 \<le> k \<and> k \<le> 90
                      \<and> map_option text_str (loadingText g) = Some (loading_label k))
          | Pause \<Rightarrow>
              before_game g \<and> label_shown g \<and> timer g = Some 300 \<and> loaded g \<noteq> None
              \<and> awaited g = None \<and> progressTimeline g \<noteq> None
          | Transition \<Rightarrow>
              game_started g \<and> (case transition g of None \<Rightarrow> False | Some tml \<Rightarrow> crossfade tml)
          | Finished \<Rightarrow>
              game_started g \<and> transition g = None
              \<and> alpha (loadingScene g) = 0 \<and> alpha (gameScene g) = 1
              \<and> children (loadingScene g) = []
          | Failed \<Rightarrow>
              before_game g \<and> awaited g = None \<and> \<not> completing g
              \<and> children (loadingScene g) = [ErrorTextId]
              \<and> errorText g = Some the_error_label))"

section \<open>The animation sequencer: running targets\<close>

lemma move_step_snd: "snd (move_step g acc input) = snd acc + magnitude g input"
  by (simp add: move_step_def magnitude_def Let_def)

lemma foldl_move_step_snd:
  "snd (foldl (move_step g) acc cmds) = snd acc + signed_sum g cmds"
  by (induction cmds arbitrary: acc) (simp_all add: signed_sum_def move_step_snd)

lemma move_step_tweens:
  "tweens (fst (move_step g acc input)) =
     tweens (fst acc) @
       [\<lparr>target = SpriteT,
         vars = \<lparr>props = [(''x'', snd acc + magnitude g input)], duration = MOVEMENT_DURATION,
                 ease = ''back.in'', delay = DELAY_BETWEEN_MOVES\<rparr>,
         start_time = timeline_duration (fst acc) + 0 + DELAY_BETWEEN_MOVES\<rparr>]"
  by (simp add: move_step_def magnitude_def Let_def timeline_to_def)

lemma signed_sum_snoc: "signed_sum g (cmds @ [c]) = signed_sum g cmds + magnitude g c"
  by (simp add: signed_sum_def)

lemma foldl_move_step_props:
  "map (\<lambda>tw. props (vars tw)) (tweens (fst (foldl (move_step g) acc cmds))) =
     map (\<lambda>tw. props (vars tw)) (tweens (fst acc)) @
       map (\<lambda>i. [(''x'', snd acc + signed_sum g (take i cmds))]) [1..<Suc (length cmds)]"
proof (induction cmds rule: rev_induct)
  case Nil
  then show ?case by simp
next
  case (snoc c cmds)
  have "map (\<lambda>i. [(''x'', snd acc + signed_sum g (take i (cmds @ [c])))]) [1..<Suc (length cmds)]
      = map (\<lambda>i. [(''x'', snd acc + signed_sum g (take i cmds))]) [1..<Suc (length cmds)]"
    by (rule map_cong) auto
  with snoc show ?case
    by (simp add: move_step_tweens foldl_move_step_snd signed_sum_snoc)
qed

lemma signed_sum_counts:
  "signed_sum g cmds = speed g * (of_nat (plus_count cmds) - of_nat (other_count cmds))"
  by (induction cmds)
     (simp_all add: signed_sum_def magnitude_def plus_count_def other_count_def algebra_simps)

lemma other_count_minus:
  "\<forall>c\<in>set cmds. sign_token c = Some CHR ''+'' \<or> sign_token c = Some CHR ''-'' \<Longrightarrow>
   other_count cmds = minus_count cmds"
  by (induction cmds) (auto simp: other_count_def minus_count_def)

lemma createAnimationTimeline_tweens:
  "tweens (createAnimationTimeline g cmds sp) =
     tweens (fst (foldl (move_step g) (gsap_timeline None, pos_x sp) cmds))"
  by (simp add: createAnimationTimeline_def Let_def timeline_then_def)

lemma timeline_play_then [simp]: "timeline_play (timeline_then tml cb) obj = timeline_play tml obj"
  by (simp add: timeline_play_def timeline_then_def)

lemma foldl_move_step_play:
  "tweens (fst acc) = [] \<Longrightarrow>
   timeline_play (fst (foldl (move_step g) acc cmds)) obj =
     (if cmds = [] then obj else obj\<lparr>pos_x := snd acc + signed_sum g cmds\<rparr>)"
proof (induction cmds rule: rev_induct)
  case Nil
  then show ?case by (simp add: timeline_play_def)
next
  case (snoc c cmds)
  then show ?case
    by (simp add: timeline_play_def move_step_tweens tween_finish_def set_prop_def
        foldl_move_step_snd signed_sum_snoc)
qed

lemma createAnimationTimeline_play:
  "timeline_play (createAnimationTimeline g cmds sp) sp = sp\<lparr>pos_x := pos_x sp + signed_sum g cmds\<rparr>"
  by (simp add: createAnimationTimeline_def Let_def foldl_move_step_play gsap_timeline_def
      signed_sum_def)

lemma createAnimationTimeline_props:
  "map (\<lambda>tw. props (vars tw)) (tweens (createAnimationTimeline g cmds sp)) =
     map (\<lambda>i. [(''x'', pos_x sp + signed_sum g (take i cmds))]) [1..<Suc (length cmds)]"
  by (simp add: createAnimationTimeline_tweens foldl_move_step_props gsap_timeline_def)

text \<open>
  C1 (as amended). For every command sequence, with \<open>S\<close> the speed of the game and
  \<open>p\<close> the number of commands whose sign token is \<open>+\<close>, the x that the completion
  callback reports is \<open>start_x + S * (p - n)\<close>, where \<open>n\<close> is the number of all other
  commands; the step appended for the \<open>i\<close>-th command animates x to \<open>start_x\<close> plus the
  same signed sum over the first \<open>i\<close> commands; and when every sign token is \<open>+\<close> or
  \<open>-\<close>, \<open>n\<close> is the number of \<open>-\<close> tokens, in the whole sequence and in each prefix.
\<close>

theorem sequencer_targets:
  "final_position (createAnimationTimeline g cmds sp) sp =
     pos_x sp + speed g * (of_nat (plus_count cmds) - of_nat (other_count cmds))
   \<and> map (\<lambda>tw. props (vars tw)) (tweens (createAnimationTimeline g cmds sp)) =
       map (\<lambda>i. [(''x'', pos_x sp + speed g * (of_nat (plus_count (take i cmds))
                                               - of_nat (other_count (take i cmds))))])
           [1..<Suc (length cmds)]
   \<and> ((\<forall>c\<in>set cmds. sign_token c = Some CHR ''+'' \<or> sign_token c = Some CHR ''-'') \<longrightarrow>
        (\<forall>i. other_count (take i cmds) = minus_count (take i cmds)))"
proof -
  have "\<forall>c\<in>set cmds. sign_token c = Some CHR ''+'' \<or> sign_token c = Some CHR ''-'' \<Longrightarrow>
        other_count (take i cmds) = minus_count (take i cmds)" for i
    by (rule other_count_minus) (auto dest: in_set_takeD)
  then show ?thesis
    by (simp add: final_position_def createAnimationTimeline_play createAnimationTimeline_props
        signed_sum_counts)
qed

text \<open>
  The scenario of the specification: the commands L+, L+, L- with speed 10 from x = 400
  give the running targets 410, 420, 410 and the reported x 410.
\<close>

theorem sequencer_targets_witness:
  "final_position
     (createAnimationTimeline (constructor 1) [''L+'', ''L+'', ''L-'']
        ((new_Sprite (Texture ''bunny''))\<lparr>pos_x := 400\<rparr>))
     ((new_Sprite (Texture ''bunny''))\<lparr>pos_x := 400\<rparr>) = 410
   \<and> map (\<lambda>tw. props (vars tw))
       (tweens (createAnimationTimeline (constructor 1) [''L+'', ''L+'', ''L-'']
          ((new_Sprite (Texture ''bunny''))\<lparr>pos_x := 400\<rparr>)))
     = [[(''x'', 410)], [(''x'', 420)], [(''x'', 410)]]
   \<and> other_count [''L+'', ''L+'', ''L-''] = 1 \<and> minus_count [''L+'', ''L+'', ''L-''] = 1
   \<and> plus_count [''L+'', ''L+'', ''L-''] = 2"
  using sequencer_targets [of "constructor 1" "[''L+'', ''L+'', ''L-'']"
      "(new_Sprite (Texture ''bunny''))\<lparr>pos_x := 400\<rparr>"]
  by (simp add: plus_count_def other_count_def minus_count_def sign_token_def constructor_def
      new_Sprite_def new_Container_def Let_def upt_rec)

text \<open>
  With \<open>n\<close> counting the \<open>-\<close> tokens only, the formula fails on a command whose sign
  token is neither: the one command L* moves the sprite from 400 to 390, and the formula
  gives 400.
\<close>

theorem sequencer_minus_count_counterexample:
  "final_position
     (createAnimationTimeline (constructor 1) [''L*'']
        ((new_Sprite (Texture ''bunny''))\<lparr>pos_x := 400\<rparr>))
     ((new_Sprite (Texture ''bunny''))\<lparr>pos_x := 400\<rparr>)
   \<noteq> pos_x ((new_Sprite (Texture ''bunny''))\<lparr>pos_x := 400\<rparr>)
       + speed (constructor 1) * (of_nat (plus_count [''L*'']) - of_nat (minus_count [''L*'']))"
  by (simp add: final_position_def createAnimationTimeline_def timeline_play_def move_step_def
      timeline_to_def timeline_then_def gsap_timeline_def tween_finish_def set_prop_def
      plus_count_def minus_count_def sign_token_def constructor_def new_Sprite_def
      new_Container_def Let_def)

section \<open>The animation sequencer: schedule\<close>

lemma foldl_max_ge: "(a::number) \<le> foldl max a xs"
  by (induction xs arbitrary: a) (auto intro: order_trans [OF max.cobounded1])

lemma timeline_duration_snoc:
  "timeline_duration (tml\<lparr>tweens := tweens tml @ [tw]\<rparr>) = max (timeline_duration tml) (tween_end tw)"
  by (simp add: timeline_duration_def)

lemma tween_end_le_duration:
  "tw \<in> set (tweens tml) \<Longrightarrow> tween_end tw \<le> timeline_duration tml"
proof -
  have "x \<in> set xs \<Longrightarrow> x \<le> foldl max (a::number) xs" for x xs a
  proof (induction xs rule: rev_induct)
    case Nil
    then show ?case by simp
  next
    case (snoc y ys)
    then show ?case by (auto simp: max_def intro: order_trans)
  qed
  then show "tw \<in> set (tweens tml) \<Longrightarrow> tween_end tw \<le> timeline_duration tml"
    by (simp add: timeline_duration_def)
qed

lemma move_step_duration:
  "timeline_duration (fst (move_step g acc input)) =
     timeline_duration (fst acc) + (MOVEMENT_DURATION + DELAY_BETWEEN_MOVES)"
  by (simp add: move_step_def Let_def timeline_to_def timeline_duration_snoc tween_end_def
      MOVEMENT_DURATION_def DELAY_BETWEEN_MOVES_def max_def)

lemma foldl_move_step_duration:
  "timeline_duration (fst (foldl (move_step g) acc cmds)) =
     timeline_duration (fst acc) + of_nat (length cmds) * (MOVEMENT_DURATION + DELAY_BETWEEN_MOVES)"
  by (induction cmds arbitrary: acc) (simp_all add: move_step_duration algebra_simps)

lemma foldl_move_step_sequential:
  "sequential (tweens (fst acc)) \<Longrightarrow> sequential (tweens (fst (foldl (move_step g) acc cmds)))"
proof (induction cmds rule: rev_induct)
  case Nil
  then show ?case by simp
next
  case (snoc c cmds)
  have "\<forall>x\<in>set (tweens (fst (foldl (move_step g) acc cmds))).
          tween_end x \<le> timeline_duration (fst (foldl (move_step g) acc cmds)) + 0 + DELAY_BETWEEN_MOVES"
    using tween_end_le_duration by (fastforce simp: DELAY_BETWEEN_MOVES_def)
  with snoc show ?case
    by (simp add: sequential_def move_step_tweens sorted_wrt_append)
qed

lemma foldl_move_step_start_times:
  "map start_time (tweens (fst (foldl (move_step g) acc cmds))) =
     map start_time (tweens (fst acc)) @
       map (\<lambda>i. timeline_duration (fst acc) + of_nat i * (MOVEMENT_DURATION + DELAY_BETWEEN_MOVES)
                  + DELAY_BETWEEN_MOVES) [0..<length cmds]"
  by (induction cmds rule: rev_induct)
     (simp_all add: move_step_tweens foldl_move_step_duration)

lemma sequential_running_le_1:
  "sequential tws \<Longrightarrow> length (filter (\<lambda>tw. start_time tw \<le> t \<and> t < tween_end tw) tws) \<le> 1"
proof (induction tws)
  case Nil
  then show ?case by simp
next
  case (Cons x xs)
  then have later: "\<forall>y\<in>set xs. tween_end x \<le> start_time y" and seq: "sequential xs"
    by (simp_all add: sequential_def)
  show ?case
  proof (cases "start_time x \<le> t \<and> t < tween_end x")
    case True
    with later have "filter (\<lambda>tw. start_time tw \<le> t \<and> t < tween_end tw) xs = []"
      by (auto simp: filter_empty_conv)
    with True show ?thesis by simp
  next
    case False
    with Cons.IH [OF seq] show ?thesis by auto
  qed
qed

lemma foldl_move_step_all:
  "list_all P (tweens (fst acc)) \<Longrightarrow>
   (\<And>st v. P \<lparr>target = SpriteT,
         vars = \<lparr>props = [(''x'', v)], duration = MOVEMENT_DURATION,
                 ease = ''back.in'', delay = DELAY_BETWEEN_MOVES\<rparr>,
         start_time = st\<rparr>) \<Longrightarrow>
   list_all P (tweens (fst (foldl (move_step g) acc cmds)))"
  by (induction cmds rule: rev_induct) (simp_all add: move_step_tweens)

lemma createAnimationTimeline_all:
  "(\<And>st v. P \<lparr>target = SpriteT,
         vars = \<lparr>props = [(''x'', v)], duration = MOVEMENT_DURATION,
                 ease = ''back.in'', delay = DELAY_BETWEEN_MOVES\<rparr>,
         start_time = st\<rparr>) \<Longrightarrow>
   list_all P (tweens (createAnimationTimeline g cmds sp))"
  by (simp add: createAnimationTimeline_tweens foldl_move_step_all gsap_timeline_def)

lemma createAnimationTimeline_duration:
  "timeline_duration (createAnimationTimeline g cmds sp) =
     of_nat (length cmds) * (MOVEMENT_DURATION + DELAY_BETWEEN_MOVES)"
proof -
  have "timeline_duration (createAnimationTimeline g cmds sp) =
        timeline_duration (fst (foldl (move_step g) (gsap_timeline None, pos_x sp) cmds))"
    by (simp add: timeline_duration_def createAnimationTimeline_tweens)
  then show ?thesis
    by (simp add: foldl_move_step_duration) (simp add: timeline_duration_def gsap_timeline_def)
qed

text \<open>
  C6. For \<open>N\<close> commands the chain lasts \<open>N * (D + G)\<close> with \<open>D\<close> the duration and
  \<open>G\<close> the delay of each step: step \<open>i\<close> (from 0) starts at \<open>i * (D + G) + G\<close>, every
  step ends before any later one starts, and at no time are two steps running.
\<close>

theorem chain_duration_sequential:
  "timeline_duration (createAnimationTimeline g cmds sp) =
     of_nat (length cmds) * (MOVEMENT_DURATION + DELAY_BETWEEN_MOVES)
   \<and> length (tweens (createAnimationTimeline g cmds sp)) = length cmds
   \<and> (\<forall>tw\<in>set (tweens (createAnimationTimeline g cmds sp)).
         duration (vars tw) = MOVEMENT_DURATION \<and> delay (vars tw) = DELAY_BETWEEN_MOVES)
   \<and> map start_time (tweens (createAnimationTimeline g cmds sp)) =
       map (\<lambda>i. of_nat i * (MOVEMENT_DURATION + DELAY_BETWEEN_MOVES) + DELAY_BETWEEN_MOVES)
         [0..<length cmds]
   \<and> sequential (tweens (createAnimationTimeline g cmds sp))
   \<and> (\<forall>t. length (running_at (createAnimationTimeline g cmds sp) t) \<le> 1)"
proof -
  let ?tml = "createAnimationTimeline g cmds sp"
  have starts: "map start_time (tweens ?tml) =
       map (\<lambda>i. of_nat i * (MOVEMENT_DURATION + DELAY_BETWEEN_MOVES) + DELAY_BETWEEN_MOVES)
         [0..<length cmds]"
    by (simp add: createAnimationTimeline_tweens foldl_move_step_start_times)
       (simp add: timeline_duration_def gsap_timeline_def)
  have len: "length (tweens ?tml) = length cmds"
    using arg_cong [OF starts, of length] by simp
  have vars: "list_all (\<lambda>tw. duration (vars tw) = MOVEMENT_DURATION
                 \<and> delay (vars tw) = DELAY_BETWEEN_MOVES) (tweens ?tml)"
    by (rule createAnimationTimeline_all) simp
  have "sequential (tweens (fst (gsap_timeline None, pos_x sp)))"
    by (simp add: sequential_def gsap_timeline_def)
  then have seq: "sequential (tweens ?tml)"
    unfolding createAnimationTimeline_tweens by (rule foldl_move_step_sequential)
  have "length (running_at ?tml t) \<le> 1" for t
    unfolding running_at_def by (rule sequential_running_le_1 [OF seq])
  with starts len vars seq show ?thesis
    by (simp add: createAnimationTimeline_duration list_all_iff)
qed

theorem chain_duration_sequential_witness:
  "timeline_duration (createAnimationTimeline (constructor 1) [''L+'', ''L-'']
      (new_Sprite (Texture ''bunny''))) = 6 / 5
   \<and> map start_time (tweens (createAnimationTimeline (constructor 1) [''L+'', ''L-'']
      (new_Sprite (Texture ''bunny'')))) = [1 / 10, 7 / 10]
   \<and> map tween_end (tweens (createAnimationTimeline (constructor 1) [''L+'', ''L-'']
      (new_Sprite (Texture ''bunny'')))) = [3 / 5, 6 / 5]
   \<and> running_at (createAnimationTimeline (constructor 1) [''L+'', ''L-'']
      (new_Sprite (Texture ''bunny''))) (13 / 20) = []"
proof -
  have "map tween_end (tweens (createAnimationTimeline (constructor 1) [''L+'', ''L-'']
      (new_Sprite (Texture ''bunny'')))) = [3 / 5, 6 / 5]
   \<and> running_at (createAnimationTimeline (constructor 1) [''L+'', ''L-'']
      (new_Sprite (Texture ''bunny''))) (13 / 20) = []"
    by (simp add: createAnimationTimeline_def move_step_def timeline_to_def timeline_then_def
        gsap_timeline_def timeline_duration_def tween_end_def running_at_def Let_def
        MOVEMENT_DURATION_def DELAY_BETWEEN_MOVES_def)
  then show ?thesis
    using chain_duration_sequential [of "constructor 1" "[''L+'', ''L-'']"
        "new_Sprite (Texture ''bunny'')"]
    by (simp add: MOVEMENT_DURATION_def DELAY_BETWEEN_MOVES_def upt_rec)
qed

section \<open>The reachable states\<close>

lemma game_inv_constructor: "game_inv (constructor dpr)"
  by (simp add: game_inv_def constructor_def before_game_def new_Container_def Let_def)

lemma set_prop_children [simp]: "children (set_prop c pv) = children c"
  by (simp add: set_prop_def)

lemma foldl_set_prop_children [simp]: "children (foldl set_prop c pvs) = children c"
  by (induction pvs arbitrary: c) simp_all

lemma tween_render_children [simp]: "children (tween_render tw vals c) = children c"
  by (simp add: tween_render_def)

lemma tween_finish_children [simp]: "children (tween_finish tw c) = children c"
  by (simp add: tween_finish_def)

lemma set_prop_text_str [simp]: "text_str (set_prop c pv) = text_str c"
  by (simp add: set_prop_def)

lemma foldl_set_prop_text_str [simp]: "text_str (foldl set_prop c pvs) = text_str c"
  by (induction pvs arbitrary: c) simp_all

lemma floor_ramp: "0 \<le> p \<Longrightarrow> p \<le> 1 \<Longrightarrow> 0 \<le> \<lfloor>p * 90\<rfloor> \<and> \<lfloor>p * 90\<rfloor> \<le> 90" for p :: rat
  by (simp add: floor_le_iff le_floor_iff) 

lemmas step_defs = initialize_def showLoadingScreen_def fadeInLoader_def fadeInLoader_fade_def
  loadAssets_def loadAssets_init_def loadAssets_load_def set_loading_text_def
  progress_onUpdate_def loadAssets_complete_def completion_onUpdate_def
  completion_onComplete_def setupGameScene_def transitionToGame_def showError_def
  loadAssets_catch_def finish_tween_def render_tween_def transition_onComplete_def
  animation_then_def

lemma game_inv_Initialize: "game_inv g \<Longrightarrow> game_inv (step cmds g Initialize)"
  by (cases "phase g")
     (simp_all add: game_inv_def before_game_def label_shown_def step_defs Let_def
        addChild_def new_Text_def anchor_set_def)

lemma createAnimationTimeline_targets:
  "list_all (\<lambda>tw. target tw = SpriteT \<and> map fst (props (vars tw)) = [''x''])
     (tweens (createAnimationTimeline g cmds sp))"
  by (rule createAnimationTimeline_all) simp

lemma tween_render_x:
  "map fst (props (vars tw)) = [''x''] \<Longrightarrow>
   tween_render tw vals obj = obj\<lparr>pos_x := (case vals of [] \<Rightarrow> pos_x obj | v # _ \<Rightarrow> v)\<rparr>"
  by (cases vals) (simp_all add: tween_render_def set_prop_def)

lemma tween_finish_x:
  "map fst (props (vars tw)) = [''x''] \<Longrightarrow>
   tween_finish tw obj = obj\<lparr>pos_x := snd (hd (props (vars tw)))\<rparr>"
  by (cases "props (vars tw)") (auto simp add: tween_finish_def set_prop_def)

lemma game_inv_TimerFired: "game_inv g \<Longrightarrow> game_inv (step cmds g TimerFired)"
  by (cases "phase g")
     (auto simp add: game_inv_def before_game_def label_shown_def game_started_def crossfade_def
        step_defs Let_def addChild_def new_Sprite_def anchor_set_def timeline_to_def
        gsap_timeline_def createAnimationTimeline_targets split: option.splits)

lemma game_inv_AwaitedRender: "game_inv g \<Longrightarrow> game_inv (step cmds g (AwaitedRender vals))"
  by (cases "phase g")
     (auto simp add: game_inv_def before_game_def label_shown_def game_started_def
        step_defs Let_def split: option.splits)

lemma game_inv_AwaitedComplete: "game_inv g \<Longrightarrow> game_inv (step cmds g AwaitedComplete)"
  by (cases "phase g")
     (auto simp add: game_inv_def before_game_def label_shown_def game_started_def
        step_defs Let_def split: option.splits)

lemma loading_label_0: "loading_label 0 = ''Loading... 0%''"
  by (simp add: loading_label_def number_toString_def nat_toString.simps digit_char_def)

lemma game_inv_InitResolved: "game_inv g \<Longrightarrow> game_inv (step cmds g InitResolved)"
  by (cases "phase g")
     (auto simp add: game_inv_def before_game_def label_shown_def game_started_def
        step_defs Let_def loading_label_0 [symmetric] split: option.splits
        intro!: exI [of _ "0::int"])

lemma game_inv_InitRejected: "game_inv g \<Longrightarrow> game_inv (step cmds g InitRejected)"
  by (cases "phase g")
     (auto simp add: game_inv_def before_game_def label_shown_def game_started_def
        the_error_label_def new_Text_def anchor_set_def addChild_def removeChildren_def
        step_defs Let_def split: option.splits)

lemma game_inv_LoadResolved: "game_inv g \<Longrightarrow> game_inv (step cmds g (LoadResolved tex))"
  by (cases "phase g")
     (auto simp add: game_inv_def before_game_def label_shown_def game_started_def
        step_defs Let_def split: option.splits)

lemma game_inv_LoadRejected: "game_inv g \<Longrightarrow> game_inv (step cmds g LoadRejected)"
  by (cases "phase g")
     (auto simp add: game_inv_def before_game_def label_shown_def game_started_def
        the_error_label_def new_Text_def anchor_set_def addChild_def removeChildren_def
        step_defs Let_def split: option.splits)

lemma game_inv_ProgressRender: "game_inv g \<Longrightarrow> game_inv (step cmds g (ProgressRender p))"
  by (cases "phase g")
     (auto simp add: game_inv_def before_game_def label_shown_def game_started_def
        step_defs Let_def floor_ramp split: option.splits
        intro!: exI [of _ "\<lfloor>p * 90\<rfloor>"])

lemma game_inv_CompletionRender: "game_inv g \<Longrightarrow> game_inv (step cmds g CompletionRender)"
  by (cases "phase g")
     (auto simp add: game_inv_def before_game_def label_shown_def game_started_def
        step_defs Let_def split: option.splits)

lemma game_inv_CompletionComplete: "game_inv g \<Longrightarrow> game_inv (step cmds g CompletionComplete)"
  by (cases "phase g")
     (auto simp add: game_inv_def before_game_def label_shown_def game_started_def
        step_defs Let_def split: option.splits)

lemma game_inv_TransitionRender:
  "game_inv g \<Longrightarrow> game_inv (step cmds g (TransitionRender vals1 vals2))"
  by (cases "phase g")
     (auto simp add: game_inv_def before_game_def label_shown_def game_started_def crossfade_def
        step_defs Let_def split: option.splits list.splits)

lemma game_inv_TransitionComplete: "game_inv g \<Longrightarrow> game_inv (step cmds g TransitionComplete)"
  by (cases "phase g")
     (auto simp add: game_inv_def before_game_def label_shown_def game_started_def crossfade_def
        step_defs Let_def removeChildren_def tween_finish_def set_prop_def
        split: option.splits list.splits)

lemma game_inv_AnimationRender: "game_inv g \<Longrightarrow> game_inv (step cmds g (AnimationRender vals))"
  by (cases "phase g")
     (auto simp add: game_inv_def before_game_def label_shown_def game_started_def
        step_defs Let_def tween_render_x tween_finish_x split: option.splits list.splits)

lemma game_inv_AnimationStepComplete:
  "game_inv g \<Longrightarrow> game_inv (step cmds g AnimationStepComplete)"
  by (cases "phase g")
     (auto simp add: game_inv_def before_game_def label_shown_def game_started_def
        step_defs Let_def tween_render_x tween_finish_x split: option.splits list.splits)

lemma game_inv_AnimationComplete: "game_inv g \<Longrightarrow> game_inv (step cmds g AnimationComplete)"
  by (cases "phase g")
     (auto simp add: game_inv_def before_game_def label_shown_def game_started_def
        step_defs Let_def split: option.splits list.splits)

lemma game_inv_step: "game_inv g \<Longrightarrow> game_inv (step cmds g e)"
  by (cases e)
     (simp_all only: game_inv_Initialize game_inv_TimerFired game_inv_AwaitedRender
        game_inv_AwaitedComplete game_inv_InitResolved game_inv_InitRejected
        game_inv_LoadResolved game_inv_LoadRejected game_inv_ProgressRender
        game_inv_CompletionRender game_inv_CompletionComplete game_inv_TransitionRender
        game_inv_TransitionComplete game_inv_AnimationRender game_inv_AnimationStepComplete
        game_inv_AnimationComplete)

lemma game_inv_run: "game_inv g \<Longrightarrow> game_inv (run cmds g evs)"
  unfolding run_def by (induction evs arbitrary: g) (simp_all add: game_inv_step)

lemma phase_finish_tween [simp]: "phase (finish_tween tw g) = phase g"
  by (simp add: finish_tween_def split: target.splits)

lemma phase_render_tween [simp]: "phase (render_tween tw vals g) = phase g"
  by (simp add: render_tween_def split: target.splits)

lemma phase_Failed_step: "phase g = Failed \<Longrightarrow> phase (step cmds g e) = Failed"
  by (cases e)
     (auto simp add: initialize_def showLoadingScreen_def fadeInLoader_def
        fadeInLoader_fade_def loadAssets_def loadAssets_init_def loadAssets_load_def
        set_loading_text_def progress_onUpdate_def loadAssets_complete_def
        completion_onUpdate_def completion_onComplete_def transition_onComplete_def
        animation_then_def Let_def split: option.splits list.splits)

lemma phase_Finished_step: "phase g = Finished \<Longrightarrow> phase (step cmds g e) = Finished"
  by (cases e)
     (auto simp add: initialize_def showLoadingScreen_def fadeInLoader_def
        fadeInLoader_fade_def loadAssets_def loadAssets_init_def loadAssets_load_def
        set_loading_text_def progress_onUpdate_def loadAssets_complete_def
        completion_onUpdate_def completion_onComplete_def transition_onComplete_def
        animation_then_def Let_def split: option.splits list.splits)

lemma phase_Failed_run: "phase g = Failed \<Longrightarrow> phase (run cmds g evs) = Failed"
  unfolding run_def by (induction evs arbitrary: g) (simp_all add: phase_Failed_step)

lemma phase_Finished_run: "phase g = Finished \<Longrightarrow> phase (run cmds g evs) = Finished"
  unfolding run_def by (induction evs arbitrary: g) (simp_all add: phase_Finished_step)

lemma game_inv_reachable: "game_inv (run cmds (constructor dpr) evs)"
  by (simp add: game_inv_run game_inv_constructor)

lemma game_inv_Failed:
  "game_inv g \<Longrightarrow> phase g = Failed \<Longrightarrow>
   children (loadingScene g) = [ErrorTextId] \<and> errorText g = Some the_error_label
   \<and> animation g = None \<and> sprite g = None \<and> transition g = None
   \<and> children (gameScene g) = [] \<and> alpha (gameScene g) = 0"
  by (simp add: game_inv_def before_game_def)

lemma game_inv_Finished:
  "game_inv g \<Longrightarrow> phase g = Finished \<Longrightarrow>
   alpha (loadingScene g) = 0 \<and> alpha (gameScene g) = 1 \<and> children (loadingScene g) = []
   \<and> children (gameScene g) = [SpriteId]"
  by (simp add: game_inv_def game_started_def)

lemmas trace_defs = run_def step_defs Let_def constructor_def new_Container_def new_Text_def
  new_Sprite_def anchor_set_def addChild_def removeChildren_def tween_finish_def
  tween_render_def set_prop_def

section \<open>The failure path\<close>

text \<open>
  C2. When the awaited asset retrieval rejects (the load, or the initialisation of the
  loader before it), the state is the error display: the one child of the loading scene
  is the fixed error label, there is no sprite, no animation chain and no cross-fade,
  and whatever events follow, all of this stays so.
\<close>

theorem rejection_is_terminal:
  assumes "g = run cmds (constructor dpr) evs"
    and "phase g = Loading \<and> e = LoadRejected \<or> phase g = AssetsInit \<and> e = InitRejected"
  shows "phase (step cmds g e) = Failed
    \<and> phase (run cmds (step cmds g e) evs') = Failed
    \<and> children (loadingScene (run cmds (step cmds g e) evs')) = [ErrorTextId]
    \<and> errorText (run cmds (step cmds g e) evs') = Some the_error_label
    \<and> animation (run cmds (step cmds g e) evs') = None
    \<and> sprite (run cmds (step cmds g e) evs') = None
    \<and> transition (run cmds (step cmds g e) evs') = None"
proof -
  have inv: "game_inv g"
    using assms(1) by (simp add: game_inv_reachable)
  have failed: "phase (step cmds g e) = Failed"
    using assms(2) by (auto simp: loadAssets_catch_def)
  have "game_inv (run cmds (step cmds g e) evs')"
    using inv by (simp add: game_inv_run game_inv_step)
  moreover have "phase (run cmds (step cmds g e) evs') = Failed"
    using failed by (rule phase_Failed_run)
  ultimately show ?thesis
    using failed game_inv_Failed by blast
qed

theorem rejection_is_terminal_witness:
  "phase (run [''L+''] (constructor 1)
       [Initialize, TimerFired, AwaitedComplete, AwaitedComplete, InitResolved,
        ProgressRender (1 / 2)]) = Loading
   \<and> phase (run [''L+'']
        (step [''L+'']
          (run [''L+''] (constructor 1)
            [Initialize, TimerFired, AwaitedComplete, AwaitedComplete, InitResolved,
             ProgressRender (1 / 2)]) LoadRejected)
        [ProgressRender 1, TimerFired, AnimationComplete]) = Failed
   \<and> children (loadingScene (run [''L+'']
        (step [''L+'']
          (run [''L+''] (constructor 1)
            [Initialize, TimerFired, AwaitedComplete, AwaitedComplete, InitResolved,
             ProgressRender (1 / 2)]) LoadRejected)
        [ProgressRender 1, TimerFired, AnimationComplete])) = [ErrorTextId]
   \<and> animation (run [''L+'']
        (step [''L+'']
          (run [''L+''] (constructor 1)
            [Initialize, TimerFired, AwaitedComplete, AwaitedComplete, InitResolved,
             ProgressRender (1 / 2)]) LoadRejected)
        [ProgressRender 1, TimerFired, AnimationComplete]) = None"
proof -
  have loading: "phase (run [''L+''] (constructor 1)
       [Initialize, TimerFired, AwaitedComplete, AwaitedComplete, InitResolved,
        ProgressRender (1 / 2)]) = Loading"
    by (simp add: trace_defs)
  show ?thesis
    using loading rejection_is_terminal [OF refl, of "[''L+'']" 1
        "[Initialize, TimerFired, AwaitedComplete, AwaitedComplete, InitResolved,
          ProgressRender (1 / 2)]" LoadRejected "[ProgressRender 1, TimerFired, AnimationComplete]"]
    by simp
qed

section \<open>The animation sequencer: edge cases and frame\<close>

text \<open>
  C3. For the empty command sequence the chain has no step and lasts no time, playing it
  leaves the sprite as it is, and the completion callback is pending on it: the engine's
  completion event is enabled at once, and it logs the x the sprite started with.
\<close>

theorem empty_sequence:
  "tweens (createAnimationTimeline g [] sp) = []
   \<and> timeline_duration (createAnimationTimeline g [] sp) = 0
   \<and> then_callback (createAnimationTimeline g [] sp) = Some ReportFinalPosition
   \<and> timeline_play (createAnimationTimeline g [] sp) sp = sp
   \<and> final_position (createAnimationTimeline g [] sp) sp = pos_x sp
   \<and> console (step cmds (h\<lparr>sprite := Some s, animation := Some (createAnimationTimeline h [] s)\<rparr>)
                AnimationComplete)
       = console h @ [FinalPosition (pos_x s)]
   \<and> sprite (step cmds (h\<lparr>sprite := Some s, animation := Some (createAnimationTimeline h [] s)\<rparr>)
                AnimationComplete)
       = Some s"
  by (simp add: createAnimationTimeline_def gsap_timeline_def timeline_then_def
      timeline_duration_def timeline_play_def final_position_def animation_then_def Let_def)

theorem empty_sequence_witness:
  "console (step [] ((constructor 1)\<lparr>sprite := Some ((new_Sprite (Texture ''bunny''))\<lparr>pos_x := 400\<rparr>),
        animation := Some (createAnimationTimeline (constructor 1) []
                             ((new_Sprite (Texture ''bunny''))\<lparr>pos_x := 400\<rparr>))\<rparr>)
      AnimationComplete) = [FinalPosition 400]
   \<and> tweens (createAnimationTimeline (constructor 1) []
        ((new_Sprite (Texture ''bunny''))\<lparr>pos_x := 400\<rparr>)) = []"
  using empty_sequence [of "constructor 1" "(new_Sprite (Texture ''bunny''))\<lparr>pos_x := 400\<rparr>"
      "[]" "constructor 1" "(new_Sprite (Texture ''bunny''))\<lparr>pos_x := 400\<rparr>"]
  by (simp add: constructor_def new_Sprite_def Let_def createAnimationTimeline_def
      gsap_timeline_def timeline_then_def)

lemma foldl_move_step_length:
  "length (tweens (fst (foldl (move_step g) acc cmds))) = length (tweens (fst acc)) + length cmds"
  by (induction cmds arbitrary: acc) (simp_all add: move_step_tweens)

lemma createAnimationTimeline_length:
  "length (tweens (createAnimationTimeline g cmds sp)) = length cmds"
  by (simp add: createAnimationTimeline_tweens foldl_move_step_length gsap_timeline_def)

lemma createAnimationTimeline_nth_props:
  "i < length cmds \<Longrightarrow>
   props (vars (tweens (createAnimationTimeline g cmds sp) ! i)) =
     [(''x'', pos_x sp + signed_sum g (take (Suc i) cmds))]"
proof -
  assume i: "i < length cmds"
  then have "props (vars (tweens (createAnimationTimeline g cmds sp) ! i)) =
      map (\<lambda>tw. props (vars tw)) (tweens (createAnimationTimeline g cmds sp)) ! i"
    by (simp add: createAnimationTimeline_length)
  also have "\<dots> = map (\<lambda>k. [(''x'', pos_x sp + signed_sum g (take k cmds))])
                     [1..<Suc (length cmds)] ! i"
    by (simp only: createAnimationTimeline_props)
  also have "\<dots> = [(''x'', pos_x sp + signed_sum g (take (Suc i) cmds))]"
    using i by (simp del: upt_Suc)
  finally show ?thesis .
qed

lemma createAnimationTimeline_nth_target:
  "i < length cmds \<Longrightarrow> target (tweens (createAnimationTimeline g cmds sp) ! i) = SpriteT"
proof -
  have "list_all (\<lambda>tw. target tw = SpriteT) (tweens (createAnimationTimeline g cmds sp))"
    by (rule createAnimationTimeline_all) simp
  then show "i < length cmds \<Longrightarrow> ?thesis"
    by (simp add: list_all_length createAnimationTimeline_length)
qed

text \<open>
  C4. A command whose sign token is neither \<open>+\<close> nor \<open>-\<close> (a command with no second
  character among them) is processed exactly as the command L-. After the commands
  \<open>pre\<close> the running target is the start x plus the signed sum of \<open>pre\<close>; the step the
  sequencer appends for the command targets the sprite and animates x to that running
  target less the speed, and run to there the chain reports that value; the same holds
  with L- in its place, the body of the loop does the same for both, and the whole
  timeline is the one built with L- in its place.
\<close>

theorem unrecognized_sign_is_minus:
  assumes "sign_token c \<noteq> Some CHR ''+''" and "sign_token c \<noteq> Some CHR ''-''"
  shows "move_step g acc c = move_step g acc ''L-''
    \<and> snd (move_step g acc c) = snd acc - speed g
    \<and> snd (foldl (move_step g) acc (pre @ [c])) = snd (foldl (move_step g) acc pre) - speed g
    \<and> createAnimationTimeline g (pre @ c # post) sp
       = createAnimationTimeline g (pre @ ''L-'' # post) sp
    \<and> final_position (createAnimationTimeline g pre sp) sp = pos_x sp + signed_sum g pre
    \<and> length (tweens (createAnimationTimeline g (pre @ c # post) sp)) = Suc (length pre + length post)
    \<and> target (tweens (createAnimationTimeline g (pre @ c # post) sp) ! length pre) = SpriteT
    \<and> props (vars (tweens (createAnimationTimeline g (pre @ c # post) sp) ! length pre))
       = [(''x'', pos_x sp + signed_sum g pre - speed g)]
    \<and> props (vars (tweens (createAnimationTimeline g (pre @ ''L-'' # post) sp) ! length pre))
       = [(''x'', pos_x sp + signed_sum g pre - speed g)]
    \<and> final_position (createAnimationTimeline g (pre @ [c]) sp) sp
       = final_position (createAnimationTimeline g pre sp) sp - speed g"
proof -
  have body: "move_step g acc c = move_step g acc ''L-''
    \<and> snd (move_step g acc c) = snd acc - speed g
    \<and> snd (foldl (move_step g) acc (pre @ [c])) = snd (foldl (move_step g) acc pre) - speed g
    \<and> createAnimationTimeline g (pre @ c # post) sp
       = createAnimationTimeline g (pre @ ''L-'' # post) sp"
    using assms
    by (simp add: createAnimationTimeline_def move_step_def sign_token_def Let_def)
  have mag: "magnitude g c = - speed g" "magnitude g ''L-'' = - speed g"
    using assms by (simp_all add: magnitude_def sign_token_def)
  have sums: "signed_sum g (take (Suc (length pre)) (pre @ d # post)) = signed_sum g pre + magnitude g d"
    for d
    by (simp add: signed_sum_def)
  have idx: "length pre < length (pre @ d # post)" for d
    by simp
  have at_c: "props (vars (tweens (createAnimationTimeline g (pre @ c # post) sp) ! length pre))
       = [(''x'', pos_x sp + signed_sum g pre - speed g)]"
    using createAnimationTimeline_nth_props [OF idx [of c], of g sp] by (simp only: sums mag) simp
  have at_minus: "props (vars (tweens (createAnimationTimeline g (pre @ ''L-'' # post) sp) ! length pre))
       = [(''x'', pos_x sp + signed_sum g pre - speed g)]"
    using createAnimationTimeline_nth_props [OF idx [of "''L-''"], of g sp]
    by (simp only: sums mag) simp
  have tgt: "target (tweens (createAnimationTimeline g (pre @ c # post) sp) ! length pre) = SpriteT"
    by (rule createAnimationTimeline_nth_target [OF idx])
  have fin: "final_position (createAnimationTimeline g xs sp) sp = pos_x sp + signed_sum g xs" for xs
    by (simp add: final_position_def createAnimationTimeline_play)
  have last: "final_position (createAnimationTimeline g (pre @ [c]) sp) sp
       = final_position (createAnimationTimeline g pre sp) sp - speed g"
    by (simp add: fin signed_sum_snoc mag)
  have len: "length (tweens (createAnimationTimeline g (pre @ c # post) sp))
       = Suc (length pre + length post)"
    by (simp add: createAnimationTimeline_length)
  show ?thesis
    using body fin [of pre] len tgt at_c at_minus last by blast
qed

theorem unrecognized_sign_is_minus_witness:
  "sign_token ''L*'' = Some CHR ''*''
   \<and> snd (move_step (constructor 1) (gsap_timeline None, 400) ''L*'') = 390
   \<and> snd (move_step (constructor 1) (gsap_timeline None, 400) ''L-'') = 390
   \<and> createAnimationTimeline (constructor 1) [''L+'', ''L*'', ''L+'']
        ((new_Sprite (Texture ''bunny''))\<lparr>pos_x := 400\<rparr>)
     = createAnimationTimeline (constructor 1) [''L+'', ''L-'', ''L+'']
        ((new_Sprite (Texture ''bunny''))\<lparr>pos_x := 400\<rparr>)
   \<and> final_position (createAnimationTimeline (constructor 1) [''L+'']
        ((new_Sprite (Texture ''bunny''))\<lparr>pos_x := 400\<rparr>))
        ((new_Sprite (Texture ''bunny''))\<lparr>pos_x := 400\<rparr>) = 410
   \<and> props (vars (tweens (createAnimationTimeline (constructor 1) [''L+'', ''L*'', ''L+'']
        ((new_Sprite (Texture ''bunny''))\<lparr>pos_x := 400\<rparr>)) ! 1)) = [(''x'', 400)]
   \<and> final_position (createAnimationTimeline (constructor 1) [''L+'', ''L*'']
        ((new_Sprite (Texture ''bunny''))\<lparr>pos_x := 400\<rparr>))
        ((new_Sprite (Texture ''bunny''))\<lparr>pos_x := 400\<rparr>) = 400"
proof -
  have tok: "sign_token ''L*'' \<noteq> Some CHR ''+''" "sign_token ''L*'' \<noteq> Some CHR ''-''"
    by (simp_all add: sign_token_def)
  have start: "signed_sum (constructor 1) [''L+''] = 10"
    "pos_x ((new_Sprite (Texture ''bunny''))\<lparr>pos_x := 400\<rparr>) = 400"
    by (simp_all add: signed_sum_def magnitude_def sign_token_def constructor_def Let_def)
  show ?thesis
    using start unrecognized_sign_is_minus [OF tok, of "constructor 1" "(gsap_timeline None, 400)"
        "[''L+'']" "[''L+'']" "(new_Sprite (Texture ''bunny''))\<lparr>pos_x := 400\<rparr>"]
    by (simp add: sign_token_def constructor_def Let_def move_step_def)
qed

text \<open>
  C8. Every step of the chain targets the sprite and animates the property x alone:
  each frame and the end of a step write pos_x and nothing else of any object they are
  applied to, and the chain as a whole leaves y, the anchor, the opacity and every
  further attribute of the sprite as they were.
\<close>

theorem sequencer_animates_x_only:
  "(\<forall>tw\<in>set (tweens (createAnimationTimeline g cmds sp)).
       target tw = SpriteT \<and> map fst (props (vars tw)) = [''x'']
       \<and> (\<forall>vals obj. \<exists>v. tween_render tw vals obj = obj\<lparr>pos_x := v\<rparr>)
       \<and> (\<forall>obj. \<exists>v. tween_finish tw obj = obj\<lparr>pos_x := v\<rparr>))
   \<and> timeline_play (createAnimationTimeline g cmds sp) sp
       = sp\<lparr>pos_x := final_position (createAnimationTimeline g cmds sp) sp\<rparr>
   \<and> pos_y (timeline_play (createAnimationTimeline g cmds sp) sp) = pos_y sp
   \<and> anchor_x (timeline_play (createAnimationTimeline g cmds sp) sp) = anchor_x sp
   \<and> anchor_y (timeline_play (createAnimationTimeline g cmds sp) sp) = anchor_y sp
   \<and> alpha (timeline_play (createAnimationTimeline g cmds sp) sp) = alpha sp
   \<and> display_object.more (timeline_play (createAnimationTimeline g cmds sp) sp)
       = display_object.more sp"
proof -
  have "list_all (\<lambda>tw. target tw = SpriteT \<and> map fst (props (vars tw)) = [''x'']
       \<and> (\<forall>vals obj. \<exists>v. tween_render tw vals obj = obj\<lparr>pos_x := v\<rparr>)
       \<and> (\<forall>obj. \<exists>v. tween_finish tw obj = obj\<lparr>pos_x := v\<rparr>))
      (tweens (createAnimationTimeline g cmds sp))"
    by (rule createAnimationTimeline_all) (auto simp add: tween_render_x tween_finish_def set_prop_def)
  then show ?thesis
    by (simp add: list_all_iff final_position_def createAnimationTimeline_play)
qed

theorem sequencer_animates_x_only_witness:
  "timeline_play
     (createAnimationTimeline (constructor 1) [''L+'', ''L+'']
        ((anchor_set (1 / 2) (new_Sprite (Texture ''bunny'')))\<lparr>pos_x := 400, pos_y := 300\<rparr>))
     ((anchor_set (1 / 2) (new_Sprite (Texture ''bunny'')))\<lparr>pos_x := 400, pos_y := 300\<rparr>)
   = \<lparr>pos_x = 420, pos_y = 300, alpha = 1, anchor_x = 1 / 2, anchor_y = 1 / 2,
      texture = Texture ''bunny''\<rparr>
   \<and> map (\<lambda>tw. (target tw, map fst (props (vars tw))))
       (tweens (createAnimationTimeline (constructor 1) [''L+'', ''L+'']
          ((anchor_set (1 / 2) (new_Sprite (Texture ''bunny'')))\<lparr>pos_x := 400, pos_y := 300\<rparr>)))
     = [(SpriteT, [''x'']), (SpriteT, [''x''])]"
  using sequencer_animates_x_only [of "constructor 1" "[''L+'', ''L+'']"
      "(anchor_set (1 / 2) (new_Sprite (Texture ''bunny'')))\<lparr>pos_x := 400, pos_y := 300\<rparr>"]
  by (simp add: createAnimationTimeline_def move_step_def timeline_to_def timeline_then_def
      gsap_timeline_def timeline_play_def tween_finish_def set_prop_def final_position_def
      sign_token_def constructor_def new_Sprite_def anchor_set_def Let_def)

section \<open>The success path\<close>

lemma run_append: "run cmds g (evs @ evs') = run cmds (run cmds g evs) evs'"
  by (simp add: run_def)

lemma run_animation_steps:
  "animation g = Some tml \<Longrightarrow> sprite g = Some s \<Longrightarrow>
   list_all (\<lambda>tw. target tw = SpriteT) (tweens tml) \<Longrightarrow>
   run cmds g (replicate (length (tweens tml)) AnimationStepComplete) =
     g\<lparr>sprite := Some (timeline_play tml s), animation := Some (tml\<lparr>tweens := []\<rparr>)\<rparr>"
proof (induction "tweens tml" arbitrary: g tml s)
  case Nil
  then show ?case
    by (simp add: run_def timeline_play_def)
next
  case (Cons tw rest)
  let ?g = "g\<lparr>sprite := Some (tween_finish tw s), animation := Some (tml\<lparr>tweens := rest\<rparr>)\<rparr>"
  have tws: "tweens tml = tw # rest"
    using Cons.hyps(2) by simp
  have first: "step cmds g AnimationStepComplete = ?g"
    using Cons.prems tws by (simp add: finish_tween_def)
  have "run cmds ?g (replicate (length (tweens (tml\<lparr>tweens := rest\<rparr>))) AnimationStepComplete) =
        ?g\<lparr>sprite := Some (timeline_play (tml\<lparr>tweens := rest\<rparr>) (tween_finish tw s)),
           animation := Some (tml\<lparr>tweens := rest, tweens := []\<rparr>)\<rparr>"
    using Cons.prems tws by (intro Cons.hyps(1)) simp_all
  then show ?case
    using first tws by (simp add: run_def timeline_play_def)
qed

text \<open>
  C10. In every reachable state that awaits the pause after a successful load, the speed
  is 10, the step duration 0.5 s and the delay 0.1 s on the 800 by 600 canvas; the timer
  sets the sprite up at (400, 300), the centre of the canvas, with anchor (0.5, 0.5), as
  the one child of the game scene; and when the chain has run, the completion callback
  logs \<open>400 + 10 * (p - n)\<close> for \<open>p\<close> commands with sign token \<open>+\<close> and \<open>n\<close> others.
\<close>

theorem success_path_constants:
  assumes "g = run cmds (constructor dpr) evs" and "phase g = Pause"
  shows "speed g = 10 \<and> MOVEMENT_DURATION = 1 / 2 \<and> DELAY_BETWEEN_MOVES = 1 / 10
    \<and> width (app g) = 800 \<and> height (app g) = 600
    \<and> (\<exists>tex. loaded g = Some tex
          \<and> sprite (step cmds g TimerFired) =
              Some \<lparr>pos_x = width (app g) / 2, pos_y = height (app g) / 2, alpha = 1,
                    anchor_x = 1 / 2, anchor_y = 1 / 2, texture = tex\<rparr>
          \<and> sprite (step cmds g TimerFired) =
              Some \<lparr>pos_x = 400, pos_y = 300, alpha = 1,
                    anchor_x = 1 / 2, anchor_y = 1 / 2, texture = tex\<rparr>)
    \<and> children (gameScene (step cmds g TimerFired)) = [SpriteId]
    \<and> console (run cmds (step cmds g TimerFired)
                 (replicate (length cmds) AnimationStepComplete @ [AnimationComplete]))
        = console g @ [FinalPosition (400 + 10 * (of_nat (plus_count cmds) - of_nat (other_count cmds)))]"
proof -
  have inv: "game_inv g"
    using assms(1) by (simp add: game_inv_reachable)
  with assms(2) obtain tex where tex: "loaded g = Some tex"
    and bg: "before_game g" and fixed: "speed g = 10" "width (app g) = 800" "height (app g) = 600"
    by (auto simp: game_inv_def)
  define s where "s = \<lparr>pos_x = 400, pos_y = 300, alpha = 1, anchor_x = 1 / 2, anchor_y = 1 / 2,
                        texture = tex\<rparr>"
  define g0 where "g0 = g\<lparr>sprite := Some s, gameScene := addChild (gameScene g) SpriteId\<rparr>"
  define tml where "tml = createAnimationTimeline g0 cmds s"
  define g1 where "g1 = step cmds g TimerFired"
  have su: "sprite g1 = Some s" "animation g1 = Some tml" "console g1 = console g"
    "children (gameScene g1) = [SpriteId]"
    using assms(2) tex bg
    by (simp_all add: g1_def s_def g0_def tml_def transitionToGame_def setupGameScene_def Let_def
        new_Sprite_def anchor_set_def addChild_def before_game_def)
  have len: "length (tweens tml) = length cmds"
    by (simp add: tml_def createAnimationTimeline_length)
  have targets: "list_all (\<lambda>tw. target tw = SpriteT) (tweens tml)"
    unfolding tml_def by (rule createAnimationTimeline_all) simp
  have played: "run cmds g1 (replicate (length cmds) AnimationStepComplete) =
      g1\<lparr>sprite := Some (timeline_play tml s), animation := Some (tml\<lparr>tweens := []\<rparr>)\<rparr>"
    using run_animation_steps [OF su(2) su(1) targets, of cmds] by (simp add: len)
  have cb: "then_callback tml = Some ReportFinalPosition"
    by (simp add: tml_def createAnimationTimeline_def timeline_then_def Let_def)
  have "pos_x (timeline_play tml s) = 400 + 10 * (of_nat (plus_count cmds) - of_nat (other_count cmds))"
    using fixed(1)
    by (simp add: tml_def createAnimationTimeline_play signed_sum_counts) (simp add: s_def g0_def)
  then have "console (run cmds g1 (replicate (length cmds) AnimationStepComplete @ [AnimationComplete]))
      = console g @ [FinalPosition (400 + 10 * (of_nat (plus_count cmds) - of_nat (other_count cmds)))]"
    using played cb su(3) by (simp add: run_append) (simp add: run_def animation_then_def)
  then show ?thesis
    using fixed tex su
    by (simp add: g1_def s_def MOVEMENT_DURATION_def DELAY_BETWEEN_MOVES_def)
qed

theorem success_path_constants_witness:
  "phase (run [''L+'', ''L+'', ''L-''] (constructor 1)
       [Initialize, TimerFired, AwaitedComplete, AwaitedComplete, InitResolved,
        LoadResolved (Texture SPRITE_URL)]) = Pause
   \<and> sprite (step [''L+'', ''L+'', ''L-'']
        (run [''L+'', ''L+'', ''L-''] (constructor 1)
          [Initialize, TimerFired, AwaitedComplete, AwaitedComplete, InitResolved,
           LoadResolved (Texture SPRITE_URL)]) TimerFired)
     = Some \<lparr>pos_x = 400, pos_y = 300, alpha = 1, anchor_x = 1 / 2, anchor_y = 1 / 2,
             texture = Texture SPRITE_URL\<rparr>
   \<and> console (run [''L+'', ''L+'', ''L-'']
        (step [''L+'', ''L+'', ''L-'']
          (run [''L+'', ''L+'', ''L-''] (constructor 1)
            [Initialize, TimerFired, AwaitedComplete, AwaitedComplete, InitResolved,
             LoadResolved (Texture SPRITE_URL)]) TimerFired)
        [AnimationStepComplete, AnimationStepComplete, AnimationStepComplete, AnimationComplete])
     = [FinalPosition 410]"
proof -
  have paused: "phase (run [''L+'', ''L+'', ''L-''] (constructor 1)
       [Initialize, TimerFired, AwaitedComplete, AwaitedComplete, InitResolved,
        LoadResolved (Texture SPRITE_URL)]) = Pause"
    and quiet: "console (run [''L+'', ''L+'', ''L-''] (constructor 1)
       [Initialize, TimerFired, AwaitedComplete, AwaitedComplete, InitResolved,
        LoadResolved (Texture SPRITE_URL)]) = []"
    and tex: "loaded (run [''L+'', ''L+'', ''L-''] (constructor 1)
       [Initialize, TimerFired, AwaitedComplete, AwaitedComplete, InitResolved,
        LoadResolved (Texture SPRITE_URL)]) = Some (Texture SPRITE_URL)"
    by (simp_all add: trace_defs)
  have counts: "plus_count [''L+'', ''L+'', ''L-''] = 2" "other_count [''L+'', ''L+'', ''L-''] = 1"
    by (simp_all add: plus_count_def other_count_def sign_token_def)
  show ?thesis
    using paused quiet tex counts success_path_constants [OF refl paused]
    by (simp add: numeral_3_eq_3 del: step.simps)
qed

section \<open>The scene transition\<close>

lemma enters_Finished:
  "phase (step cmds g e) = Finished \<Longrightarrow> phase g \<noteq> Finished \<Longrightarrow>
   e = TransitionComplete \<and> phase g = Transition"
  by (cases e)
     (auto simp add: initialize_def showLoadingScreen_def fadeInLoader_def
        fadeInLoader_fade_def loadAssets_def loadAssets_init_def loadAssets_load_def
        set_loading_text_def progress_onUpdate_def loadAssets_complete_def
        completion_onUpdate_def completion_onComplete_def transition_onComplete_def
        animation_then_def transitionToGame_def setupGameScene_def loadAssets_catch_def
        showError_def Let_def split: option.splits list.splits if_splits)

lemma enters_Transition:
  "phase (step cmds g e) = Transition \<Longrightarrow> phase g \<noteq> Transition \<Longrightarrow>
   e = TimerFired \<and> phase g = Pause"
  by (cases e)
     (auto simp add: initialize_def showLoadingScreen_def fadeInLoader_def
        fadeInLoader_fade_def loadAssets_def loadAssets_init_def loadAssets_load_def
        set_loading_text_def progress_onUpdate_def loadAssets_complete_def
        completion_onUpdate_def completion_onComplete_def transition_onComplete_def
        animation_then_def transitionToGame_def setupGameScene_def loadAssets_catch_def
        showError_def Let_def split: option.splits list.splits if_splits)

text \<open>
  C5. In every reachable state the cross-fade completes from the Transition phase into
  the Finished phase, which can be entered in no other way; and from a Finished state
  on, whatever events follow, the game scene has opacity 1 (at least 0.99), the loading
  scene has opacity 0 (at most 0.01) and no children, so exactly one of the two scenes
  is opaque.
\<close>

theorem steady_state_after_transition:
  assumes "g = run cmds (constructor dpr) evs"
  shows "(phase g = Transition \<longrightarrow> phase (step cmds g TransitionComplete) = Finished)
    \<and> (phase (step cmds g e) = Finished \<and> phase g \<noteq> Finished \<longrightarrow>
          e = TransitionComplete \<and> phase g = Transition)
    \<and> (phase g = Finished \<longrightarrow>
          phase (run cmds g evs') = Finished
          \<and> alpha (gameScene (run cmds g evs')) = 1
          \<and> alpha (loadingScene (run cmds g evs')) = 0
          \<and> 99 / 100 \<le> alpha (gameScene (run cmds g evs'))
          \<and> alpha (loadingScene (run cmds g evs')) \<le> 1 / 100
          \<and> \<not> 99 / 100 \<le> alpha (loadingScene (run cmds g evs'))
          \<and> \<not> alpha (gameScene (run cmds g evs')) \<le> 1 / 100
          \<and> children (loadingScene (run cmds g evs')) = []
          \<and> children (gameScene (run cmds g evs')) = [SpriteId])"
proof -
  have inv: "game_inv g"
    using assms by (simp add: game_inv_reachable)
  have completes: "phase (step cmds g TransitionComplete) = Finished" if "phase g = Transition"
    using inv that by (auto simp: game_inv_def transition_onComplete_def Let_def split: option.splits)
  have steady: "phase (run cmds g evs') = Finished
      \<and> alpha (gameScene (run cmds g evs')) = 1 \<and> alpha (loadingScene (run cmds g evs')) = 0
      \<and> children (loadingScene (run cmds g evs')) = []
      \<and> children (gameScene (run cmds g evs')) = [SpriteId]" if "phase g = Finished"
  proof -
    have "game_inv (run cmds g evs')"
      using inv by (rule game_inv_run)
    moreover have "phase (run cmds g evs') = Finished"
      using that by (rule phase_Finished_run)
    ultimately show ?thesis
      using game_inv_Finished by blast
  qed
  show ?thesis
    using completes steady enters_Finished [of cmds g e] by auto
qed

theorem steady_state_after_transition_witness:
  "phase (run [''L+''] (constructor 1)
      [Initialize, TimerFired, AwaitedComplete, AwaitedComplete, InitResolved,
       LoadResolved (Texture SPRITE_URL), TimerFired, TransitionRender [1 / 2] [1 / 4],
       TransitionComplete]) = Finished
   \<and> alpha (gameScene (run [''L+'']
        (run [''L+''] (constructor 1)
          [Initialize, TimerFired, AwaitedComplete, AwaitedComplete, InitResolved,
           LoadResolved (Texture SPRITE_URL), TimerFired, TransitionRender [1 / 2] [1 / 4],
           TransitionComplete])
        [AnimationRender [395], ProgressRender 1, AnimationStepComplete, AnimationComplete])) = 1
   \<and> alpha (loadingScene (run [''L+'']
        (run [''L+''] (constructor 1)
          [Initialize, TimerFired, AwaitedComplete, AwaitedComplete, InitResolved,
           LoadResolved (Texture SPRITE_URL), TimerFired, TransitionRender [1 / 2] [1 / 4],
           TransitionComplete])
        [AnimationRender [395], ProgressRender 1, AnimationStepComplete, AnimationComplete])) = 0
   \<and> children (loadingScene (run [''L+'']
        (run [''L+''] (constructor 1)
          [Initialize, TimerFired, AwaitedComplete, AwaitedComplete, InitResolved,
           LoadResolved (Texture SPRITE_URL), TimerFired, TransitionRender [1 / 2] [1 / 4],
           TransitionComplete])
        [AnimationRender [395], ProgressRender 1, AnimationStepComplete, AnimationComplete])) = []"
proof -
  have finished: "phase (run [''L+''] (constructor 1)
      [Initialize, TimerFired, AwaitedComplete, AwaitedComplete, InitResolved,
       LoadResolved (Texture SPRITE_URL), TimerFired, TransitionRender [1 / 2] [1 / 4],
       TransitionComplete]) = Finished"
    by (simp add: trace_defs createAnimationTimeline_def move_step_def timeline_to_def
        timeline_then_def gsap_timeline_def)
  show ?thesis
    using finished steady_state_after_transition [OF refl, of "[''L+'']" 1
      "[Initialize, TimerFired, AwaitedComplete, AwaitedComplete, InitResolved,
       LoadResolved (Texture SPRITE_URL), TimerFired, TransitionRender [1 / 2] [1 / 4],
       TransitionComplete]" Initialize
      "[AnimationRender [395], ProgressRender 1, AnimationStepComplete, AnimationComplete]"]
    by (simp del: step.simps)
qed

section \<open>The error handler\<close>

text \<open>
  C9. In every reachable state that awaits the load, its rejection changes the loading
  scene's children to the one error label, allocates that label, logs the error and ends
  the method: nothing else of the state changes, and the game scene still has opacity 0
  and no children.
\<close>

theorem showError_frame:
  assumes "g = run cmds (constructor dpr) evs" and "phase g = Loading"
  shows "step cmds g LoadRejected =
      g\<lparr>loadingScene := (loadingScene g)\<lparr>children := [ErrorTextId]\<rparr>,
        errorText := Some the_error_label,
        phase := Failed,
        console := console g @ [ErrorLoadingAssets]\<rparr>
    \<and> gameScene (step cmds g LoadRejected) = gameScene g
    \<and> alpha (gameScene (step cmds g LoadRejected)) = 0
    \<and> children (gameScene (step cmds g LoadRejected)) = []
    \<and> children (loadingScene (step cmds g LoadRejected)) = [ErrorTextId]
    \<and> errorText (step cmds g LoadRejected) = Some the_error_label
    \<and> text_str the_error_label = ''Error loading game assets''"
proof -
  have inv: "game_inv g"
    using assms(1) by (simp add: game_inv_reachable)
  then have "width (app g) = 800" "height (app g) = 600" "children (gameScene g) = []"
    "alpha (gameScene g) = 0"
    using assms(2) by (simp_all add: game_inv_def before_game_def)
  then show ?thesis
    using assms(2)
    by (simp add: loadAssets_catch_def showError_def Let_def new_Text_def anchor_set_def
        addChild_def removeChildren_def the_error_label_def)
qed

theorem showError_frame_witness:
  "phase (run [''L+''] (constructor 1)
      [Initialize, TimerFired, AwaitedComplete, AwaitedComplete, InitResolved,
       ProgressRender (1 / 2)]) = Loading
   \<and> children (loadingScene (step [''L+''] (run [''L+''] (constructor 1)
      [Initialize, TimerFired, AwaitedComplete, AwaitedComplete, InitResolved,
       ProgressRender (1 / 2)]) LoadRejected)) = [ErrorTextId]
   \<and> children (gameScene (step [''L+''] (run [''L+''] (constructor 1)
      [Initialize, TimerFired, AwaitedComplete, AwaitedComplete, InitResolved,
       ProgressRender (1 / 2)]) LoadRejected)) = []
   \<and> alpha (gameScene (step [''L+''] (run [''L+''] (constructor 1)
      [Initialize, TimerFired, AwaitedComplete, AwaitedComplete, InitResolved,
       ProgressRender (1 / 2)]) LoadRejected)) = 0
   \<and> errorText (step [''L+''] (run [''L+''] (constructor 1)
      [Initialize, TimerFired, AwaitedComplete, AwaitedComplete, InitResolved,
       ProgressRender (1 / 2)]) LoadRejected)
     = Some \<lparr>pos_x = 400, pos_y = 300, alpha = 1, anchor_x = 1 / 2, anchor_y = 1 / 2,
             text_str = ''Error loading game assets'',
             style = \<lparr>fontFamily = ''Arial'', fontSize = 24, fill = 0xff0000\<rparr>\<rparr>"
proof -
  have loading: "phase (run [''L+''] (constructor 1)
      [Initialize, TimerFired, AwaitedComplete, AwaitedComplete, InitResolved,
       ProgressRender (1 / 2)]) = Loading"
    by (simp add: trace_defs)
  show ?thesis
    using loading showError_frame [OF refl loading, THEN conjunct2, THEN conjunct2]
    by (simp add: the_error_label_def del: step.simps)
qed

section \<open>The loading display\<close>

lemma floor_completion:
  "0 \<le> p \<Longrightarrow> 10 \<le> \<lfloor>min 1 (p + 1 / 10) * 100\<rfloor> \<and> \<lfloor>min 1 (p + 1 / 10) * 100\<rfloor> \<le> 100" for p :: rat
  by (simp add: floor_le_iff le_floor_iff min_def)

text \<open>
  What holds of the progress display in every reachable state. While the load is
  awaited, the label is the one child of the loading scene and reads a percentage between
  0 and 90, each frame of the ramp writes \<open>\<lfloor>p * 90\<rfloor>\<close>, and the resolution of the
  load starts the completion tween and the timer of 300 ms together. While the
  completion tween runs, its frames write a percentage between 10 and 100 and its end
  writes 100. The cross-fade is entered by that timer and in no other way.
\<close>

lemma loading_display:
  assumes "g = run cmds (constructor dpr) evs"
  shows "(phase g = Loading \<longrightarrow>
            children (loadingScene g) = [LoadingTextId]
            \<and> (\<exists>k. 0 \<le> k \<and> k \<le> 90
                  \<and> map_option text_str (loadingText g) = Some (loading_label k))
            \<and> (\<exists>p0. progressTimeline g = Some p0
                  \<and> (p0 < 1 \<and> 0 \<le> p \<and> p \<le> 1 \<longrightarrow>
                        map_option text_str (loadingText (step cmds g (ProgressRender p)))
                          = Some (loading_label \<lfloor>p * 90\<rfloor>)
                        \<and> \<lfloor>p * 90\<rfloor> \<le> 90))
            \<and> phase (step cmds g (LoadResolved tex)) = Pause
            \<and> completing (step cmds g (LoadResolved tex))
            \<and> timer (step cmds g (LoadResolved tex)) = Some 300)
    \<and> (completing g \<longrightarrow>
          map_option text_str (loadingText (step cmds g CompletionComplete))
            = Some ''Loading... 100%''
          \<and> (\<exists>k. 10 \<le> k \<and> k \<le> 100
                \<and> map_option text_str (loadingText (step cmds g CompletionRender))
                     = Some (loading_label k)))
    \<and> (phase g = Pause \<longrightarrow> timer g = Some 300 \<and> phase (step cmds g TimerFired) = Transition)
    \<and> (phase (step cmds g e) = Transition \<and> phase g \<noteq> Transition \<longrightarrow>
          e = TimerFired \<and> phase g = Pause)"
proof -
  have inv: "game_inv g"
    using assms by (simp add: game_inv_reachable)
  have loading: "children (loadingScene g) = [LoadingTextId]
      \<and> (\<exists>k. 0 \<le> k \<and> k \<le> 90 \<and> map_option text_str (loadingText g) = Some (loading_label k))
      \<and> (\<exists>p0. progressTimeline g = Some p0
            \<and> (p0 < 1 \<and> 0 \<le> p \<and> p \<le> 1 \<longrightarrow>
                  map_option text_str (loadingText (step cmds g (ProgressRender p)))
                    = Some (loading_label \<lfloor>p * 90\<rfloor>)
                  \<and> \<lfloor>p * 90\<rfloor> \<le> 90))
      \<and> phase (step cmds g (LoadResolved tex)) = Pause
      \<and> completing (step cmds g (LoadResolved tex))
      \<and> timer (step cmds g (LoadResolved tex)) = Some 300" if "phase g = Loading"
    using inv that
    by (auto simp add: game_inv_def label_shown_def progress_onUpdate_def set_loading_text_def
        loadAssets_complete_def floor_ramp)
  have label: "loadingText g \<noteq> None \<and> (\<exists>p0. progressTimeline g = Some p0 \<and> 0 \<le> p0)"
    if "completing g"
    using inv that
    by (cases "phase g")
       (auto simp add: game_inv_def before_game_def label_shown_def game_started_def
          split: option.splits)
  have completion: "map_option text_str (loadingText (step cmds g CompletionComplete))
        = Some ''Loading... 100%''
      \<and> (\<exists>k. 10 \<le> k \<and> k \<le> 100
            \<and> map_option text_str (loadingText (step cmds g CompletionRender))
                 = Some (loading_label k))" if "completing g"
  proof -
    from label [OF that] obtain t p0 where t: "loadingText g = Some t"
      and p0: "progressTimeline g = Some p0" "0 \<le> p0"
      by auto
    have "map_option text_str (loadingText (step cmds g CompletionRender))
        = Some (loading_label \<lfloor>min 1 (p0 + 1 / 10) * 100\<rfloor>)"
      using that t p0 by (simp add: completion_onUpdate_def set_loading_text_def Let_def)
    with floor_completion [OF p0(2)] have "\<exists>k. 10 \<le> k \<and> k \<le> 100
        \<and> map_option text_str (loadingText (step cmds g CompletionRender)) = Some (loading_label k)"
      by blast
    then show ?thesis
      using that t by (simp add: completion_onComplete_def set_loading_text_def)
  qed
  have pause: "timer g = Some 300 \<and> phase (step cmds g TimerFired) = Transition" if "phase g = Pause"
    using inv that by (auto simp add: game_inv_def transitionToGame_def Let_def)
  show ?thesis
    using loading completion pause enters_Transition [of cmds g e] by blast
qed

lemma floor_ramp_at_seven_eighths: "\<lfloor>315 / 4 :: rat\<rfloor> = 78"
  by (rule floor_unique) simp_all

text \<open>
  C7, at a load that resolves while the ramp is at one half. The pause of 300 ms begins
  with the label at 45%; a frame of the completion tween shows 60%; the label reads
  100% once that tween ends, which is when the timer is due; and the ramp, which nothing
  stops, writes 78% to the label while the loading scene, still holding it, fades out.
\<close>

theorem pause_not_at_100:
  "phase (run [''L+''] (constructor 1)
      [Initialize, TimerFired, AwaitedComplete, AwaitedComplete, InitResolved,
       ProgressRender (1 / 2), LoadResolved (Texture SPRITE_URL)]) = Pause
   \<and> timer (run [''L+''] (constructor 1)
      [Initialize, TimerFired, AwaitedComplete, AwaitedComplete, InitResolved,
       ProgressRender (1 / 2), LoadResolved (Texture SPRITE_URL)]) = Some 300
   \<and> map_option text_str (loadingText (run [''L+''] (constructor 1)
      [Initialize, TimerFired, AwaitedComplete, AwaitedComplete, InitResolved,
       ProgressRender (1 / 2), LoadResolved (Texture SPRITE_URL)])) = Some ''Loading... 45%''
   \<and> phase (run [''L+''] (constructor 1)
      [Initialize, TimerFired, AwaitedComplete, AwaitedComplete, InitResolved,
       ProgressRender (1 / 2), LoadResolved (Texture SPRITE_URL), CompletionRender]) = Pause
   \<and> map_option text_str (loadingText (run [''L+''] (constructor 1)
      [Initialize, TimerFired, AwaitedComplete, AwaitedComplete, InitResolved,
       ProgressRender (1 / 2), LoadResolved (Texture SPRITE_URL), CompletionRender]))
     = Some ''Loading... 60%''
   \<and> map_option text_str (loadingText (run [''L+''] (constructor 1)
      [Initialize, TimerFired, AwaitedComplete, AwaitedComplete, InitResolved,
       ProgressRender (1 / 2), LoadResolved (Texture SPRITE_URL), CompletionRender,
       CompletionComplete])) = Some ''Loading... 100%''
   \<and> phase (run [''L+''] (constructor 1)
      [Initialize, TimerFired, AwaitedComplete, AwaitedComplete, InitResolved,
       ProgressRender (1 / 2), LoadResolved (Texture SPRITE_URL), CompletionRender,
       CompletionComplete, TimerFired, ProgressRender (7 / 8)]) = Transition
   \<and> map_option text_str (loadingText (run [''L+''] (constructor 1)
      [Initialize, TimerFired, AwaitedComplete, AwaitedComplete, InitResolved,
       ProgressRender (1 / 2), LoadResolved (Texture SPRITE_URL), CompletionRender,
       CompletionComplete, TimerFired, ProgressRender (7 / 8)])) = Some ''Loading... 78%''
   \<and> children (loadingScene (run [''L+''] (constructor 1)
      [Initialize, TimerFired, AwaitedComplete, AwaitedComplete, InitResolved,
       ProgressRender (1 / 2), LoadResolved (Texture SPRITE_URL), CompletionRender,
       CompletionComplete, TimerFired, ProgressRender (7 / 8)])) = [LoadingTextId]"
  by (simp add: trace_defs loading_label_def number_toString_def nat_toString.simps
      digit_char_def createAnimationTimeline_def move_step_def timeline_to_def
      timeline_then_def gsap_timeline_def floor_ramp_at_seven_eighths)

end
